theory Spec2Isabelle
  imports Main
begin

section \<open>Python values and exceptions\<close>

text \<open>
  The exceptions that the module \<^verbatim>\<open>pipelines/airbyte_ci/connectors/context.py\<close> can raise
  or let through. \<open>RuntimeError\<close> carries a message and stands for any exception raised by
  the enclosed pipeline scope or by an external collaborator.
\<close>

datatype py_error =
    FileNotFoundError
  | YAMLError
  | KeyError
  | TypeError
  | AttributeError
  | NotImplementedError
  | RuntimeError string

text \<open>
  The documents \<^verbatim>\<open>yaml.safe_load\<close> produces: scalars, sequences and mappings. A mapping is
  an association list read with \<open>map_of\<close> (the first binding of a key is the dictionary's
  entry); keys are strings.
\<close>

datatype yaml =
    YNull
  | YBool bool
  | YInt int
  | YStr string
  | YSeq "yaml list"
  | YMap "(string \<times> yaml) list"

text \<open>\<^verbatim>\<open>value[key]\<close> with a string key: only a dict can be subscripted by a string.\<close>

fun subscript :: "yaml \<Rightarrow> string \<Rightarrow> py_error + yaml" where
  "subscript (YMap kvs) k = (case map_of kvs k of None \<Rightarrow> Inl KeyError | Some v \<Rightarrow> Inr v)"
| "subscript YNull k = Inl TypeError"
| "subscript (YBool b) k = Inl TypeError"
| "subscript (YInt i) k = Inl TypeError"
| "subscript (YStr s) k = Inl TypeError"
| "subscript (YSeq xs) k = Inl TypeError"

text \<open>\<^verbatim>\<open>value.get(key, default)\<close>: only a dict has the method.\<close>

fun dict_get :: "yaml \<Rightarrow> string \<Rightarrow> yaml \<Rightarrow> py_error + yaml" where
  "dict_get (YMap kvs) k d = Inr (case map_of kvs k of None \<Rightarrow> d | Some v \<Rightarrow> v)"
| "dict_get YNull k d = Inl AttributeError"
| "dict_get (YBool b) k d = Inl AttributeError"
| "dict_get (YInt i) k d = Inl AttributeError"
| "dict_get (YStr s) k d = Inl AttributeError"
| "dict_get (YSeq xs) k d = Inl AttributeError"

text \<open>
  \<^verbatim>\<open>for option in value\<close>: a list yields its elements, a dict its keys, a string its
  characters; the other values are not iterable.
\<close>

fun iterate :: "yaml \<Rightarrow> py_error + yaml list" where
  "iterate (YSeq xs) = Inr xs"
| "iterate (YMap kvs) = Inr (map YStr (remdups (map fst kvs)))"
| "iterate (YStr s) = Inr (map (\<lambda>c. YStr [c]) s)"
| "iterate YNull = Inl TypeError"
| "iterate (YBool b) = Inl TypeError"
| "iterate (YInt i) = Inl TypeError"

section \<open>The connector context\<close>

text \<open>
  A secret handle of the dagger client: \<^verbatim>\<open>dagger_client.set_secret(name, plaintext)\<close>
  is the constructor \<open>set_secret\<close>. The client itself is provided by the base class
  \<^verbatim>\<open>PipelineContext\<close> and is taken to be available.
\<close>

datatype secret = set_secret (secret_name: string) (plaintext: string)

text \<open>
  Modelled from the spec: the class \<^verbatim>\<open>ConnectorReport\<close> is imported from
  \<^verbatim>\<open>pipelines.airbyte_ci.connectors.reports\<close>; a report is its list of executed steps, and
  \<^verbatim>\<open>ConnectorReport(self, [])\<close> is the empty default report with zero executed steps.
\<close>

datatype report = ConnectorReport (steps_results: "string list")

text \<open>
  Modelled from the spec: the enumeration \<^verbatim>\<open>ContextState\<close> of the base class; the final
  state is the terminal status computed for a connector's pipeline run.
\<close>

datatype context_state = SUCCESSFUL | FAILURE | ERROR

text \<open>
  What teardown and the secret accessor do to the outside world, in order: calls of the
  logger and of the external collaborators. The trace is a ghost field of the context.
\<close>

datatype event =
    LoggerError string
  | SecretsFetch
  | SecretsUpload
  | ReportPrint report
  | ReportSave report
  | CommitStatusCheckUpdate "context_state option"
  | SlackMessage string "string option" "string option"

type_synonym path = "string list"

text \<open>
  The fields of \<^verbatim>\<open>ConnectorContext\<close> (and of its base class) that the functions below
  read or write. \<open>code_directory\<close> is \<^verbatim>\<open>self.connector.code_directory\<close>.
\<close>

record connector_context =
  code_directory :: path
  use_remote_secrets :: bool
  updated_secrets_dir :: "path option"
  should_save_report :: bool
  docker_hub_username :: "string option"
  docker_hub_password :: "string option"
  s3_build_cache_access_key_id :: "string option"
  s3_build_cache_secret_key :: "string option"
  connector_secrets :: "(string \<times> secret) list option"
  slack_webhook :: "string option"
  reporting_slack_channel :: "string option"
  report :: "report option"
  state :: "context_state option"
  stopped_at :: "nat option"
  trace :: "event list"

section \<open>Credential accessors\<close>

text \<open>Python's truth value of an \<^verbatim>\<open>Optional[str]\<close>: \<^verbatim>\<open>None\<close> and \<^verbatim>\<open>""\<close> are false.\<close>

fun truthy :: "string option \<Rightarrow> bool" where
  "truthy None = False"
| "truthy (Some s) = (s \<noteq> [])"

definition s3_build_cache_access_key_id_secret :: "connector_context \<Rightarrow> secret option" where
  "s3_build_cache_access_key_id_secret self =
     (if truthy (s3_build_cache_access_key_id self)
      then (case s3_build_cache_access_key_id self of
              Some v \<Rightarrow> Some (set_secret ''s3_build_cache_access_key_id'' v)
            | None \<Rightarrow> None)
      else None)"

definition s3_build_cache_secret_key_secret :: "connector_context \<Rightarrow> secret option" where
  "s3_build_cache_secret_key_secret self =
     (if truthy (s3_build_cache_access_key_id self) \<and> truthy (s3_build_cache_secret_key self)
      then (case s3_build_cache_secret_key self of
              Some v \<Rightarrow> Some (set_secret ''s3_build_cache_secret_key'' v)
            | None \<Rightarrow> None)
      else None)"

definition docker_hub_username_secret :: "connector_context \<Rightarrow> secret option" where
  "docker_hub_username_secret self =
     (case docker_hub_username self of
        None \<Rightarrow> None
      | Some v \<Rightarrow> Some (set_secret ''docker_hub_username'' v))"

definition docker_hub_password_secret :: "connector_context \<Rightarrow> secret option" where
  "docker_hub_password_secret self =
     (case docker_hub_password self of
        None \<Rightarrow> None
      | Some v \<Rightarrow> Some (set_secret ''docker_hub_password'' v))"

definition should_save_updated_secrets :: "connector_context \<Rightarrow> bool" where
  "should_save_updated_secrets self =
     (use_remote_secrets self \<and> updated_secrets_dir self \<noteq> None)"

section \<open>The metadata accessor\<close>

text \<open>
  The world outside the context that the metadata accessor reads: the constant
  \<^verbatim>\<open>METADATA_FILE_NAME\<close> (imported from \<^verbatim>\<open>pipelines.helpers.utils\<close>), the readable text
  files by path, and the parser \<^verbatim>\<open>yaml.safe_load\<close>, which returns a document or raises
  \<^verbatim>\<open>yaml.YAMLError\<close> (\<open>None\<close>).
\<close>

record environment =
  METADATA_FILE_NAME :: string
  files :: "path \<rightharpoonup> string"
  safe_load :: "string \<Rightarrow> yaml option"

definition metadata_path :: "environment \<Rightarrow> connector_context \<Rightarrow> path" where
  "metadata_path env self = code_directory self @ [METADATA_FILE_NAME env]"

definition read_text :: "environment \<Rightarrow> path \<Rightarrow> py_error + string" where
  "read_text env p = (case files env p of None \<Rightarrow> Inl FileNotFoundError | Some t \<Rightarrow> Inr t)"

definition metadata :: "environment \<Rightarrow> connector_context \<Rightarrow> py_error + yaml" where
  "metadata env self =
     (case read_text env (metadata_path env self) of
        Inl e \<Rightarrow> Inl e
      | Inr text \<Rightarrow>
          (case safe_load env text of
             None \<Rightarrow> Inl YAMLError
           | Some document \<Rightarrow> subscript document ''data''))"

section \<open>The step-skip policy\<close>

text \<open>
  Modelled from the spec: the enumeration \<^verbatim>\<open>CONNECTOR_TEST_STEP_ID\<close> is imported from
  \<^verbatim>\<open>pipelines.airbyte_ci.connectors.consts\<close>; the source uses its members \<open>UNIT\<close>,
  \<open>INTEGRATION\<close> and \<open>ACCEPTANCE\<close>, and \<open>OTHER_STEP\<close> stands for every other step identifier
  a skip list may hold.
\<close>

datatype CONNECTOR_TEST_STEP_ID = UNIT | INTEGRATION | ACCEPTANCE | OTHER_STEP string

definition TEST_SUITE_NAME_TO_STEP_ID :: "(string \<times> CONNECTOR_TEST_STEP_ID) list" where
  "TEST_SUITE_NAME_TO_STEP_ID =
     [(''unitTests'', UNIT), (''integrationTests'', INTEGRATION), (''acceptanceTests'', ACCEPTANCE)]"

text \<open>
  The comprehension \<^verbatim>\<open>[option["suite"] for option in options]\<close>: the first option that
  cannot be subscripted, or has no \<^verbatim>\<open>suite\<close> key, raises.
\<close>

fun option_suites :: "yaml list \<Rightarrow> py_error + yaml list" where
  "option_suites [] = Inr []"
| "option_suites (opt # opts) =
     (case subscript opt ''suite'' of
        Inl e \<Rightarrow> Inl e
      | Inr s \<Rightarrow>
          (case option_suites opts of
             Inl e \<Rightarrow> Inl e
           | Inr ss \<Rightarrow> Inr (s # ss)))"

definition get_step_id_to_skip_according_to_metadata ::
  "environment \<Rightarrow> connector_context \<Rightarrow> py_error + CONNECTOR_TEST_STEP_ID list" where
  "get_step_id_to_skip_according_to_metadata env self =
     (case metadata env self of
        Inl e \<Rightarrow> Inl e
      | Inr md \<Rightarrow>
          (case dict_get md ''connectorTestSuitesOptions'' (YSeq []) of
             Inl e \<Rightarrow> Inl e
           | Inr options \<Rightarrow>
               (case iterate options of
                  Inl e \<Rightarrow> Inl e
                | Inr opts \<Rightarrow>
                    (case option_suites opts of
                       Inl e \<Rightarrow> Inl e
                     | Inr enabled_test_suites \<Rightarrow>
                         Inr (map snd
                                (filter (\<lambda>(test_suite_name, step_id).
                                           YStr test_suite_name \<notin> set enabled_test_suites)
                                        TEST_SUITE_NAME_TO_STEP_ID))))))"

section \<open>Run-step options on the heap\<close>

text \<open>
  Modelled from the spec: the class \<^verbatim>\<open>RunStepOptions\<close> is imported from
  \<^verbatim>\<open>pipelines.helpers.execution.run_steps\<close>; a run-step configuration is an object with a
  skip list (attribute \<^verbatim>\<open>skip_steps\<close>, a mutable list object) and further settings, which
  are immutable values here.

  Objects live in a store and are named by their addresses: an address is the index of
  the object in the store, and allocating appends to the store.
\<close>

type_synonym addr = nat

record run_step_options =
  skip_steps :: addr
  settings :: string

record heap =
  list_objs :: "CONNECTOR_TEST_STEP_ID list list"
  option_objs :: "run_step_options list"

text \<open>The skip list that the configuration object at an address holds.\<close>

definition skip_list_of :: "heap \<Rightarrow> addr \<Rightarrow> CONNECTOR_TEST_STEP_ID list" where
  "skip_list_of h a = list_objs h ! skip_steps (option_objs h ! a)"

text \<open>A reference to a configuration object is valid when the object and its list exist.\<close>

definition valid_options :: "heap \<Rightarrow> addr \<Rightarrow> bool" where
  "valid_options h a =
     (a < length (option_objs h) \<and> skip_steps (option_objs h ! a) < length (list_objs h))"

text \<open>
  \<^verbatim>\<open>copy.deepcopy\<close> of a configuration object: a new list object with the same elements
  and a new configuration object that refers to it.
\<close>

definition deepcopy :: "heap \<Rightarrow> addr \<Rightarrow> addr \<times> heap" where
  "deepcopy h a =
     (let obj = option_objs h ! a;
          l' = length (list_objs h);
          h1 = h\<lparr>list_objs := list_objs h @ [list_objs h ! skip_steps obj]\<rparr>;
          a' = length (option_objs h1);
          h2 = h1\<lparr>option_objs := option_objs h1 @ [obj\<lparr>skip_steps := l'\<rparr>]\<rparr>
      in (a', h2))"

text \<open>
  \<^verbatim>\<open>obj.skip_steps += steps\<close>: the attribute is read, the list object it names is extended
  in place, and the attribute is bound to that same list again.
\<close>

definition iadd_skip_steps :: "heap \<Rightarrow> addr \<Rightarrow> CONNECTOR_TEST_STEP_ID list \<Rightarrow> heap" where
  "iadd_skip_steps h a steps =
     (let l = skip_steps (option_objs h ! a);
          h1 = h\<lparr>list_objs := (list_objs h)[l := list_objs h ! l @ steps]\<rparr>
      in h1\<lparr>option_objs := (option_objs h1)[a := (option_objs h1 ! a)\<lparr>skip_steps := l\<rparr>]\<rparr>)"

text \<open>
  The result is the address of the returned configuration, or the exception of the
  metadata policy, together with the store after the call.
\<close>

definition skip_metadata_disabled_test_suites ::
  "environment \<Rightarrow> connector_context \<Rightarrow> heap \<Rightarrow> addr \<Rightarrow> (py_error + addr) \<times> heap" where
  "skip_metadata_disabled_test_suites env self h run_step_options =
     (let (copied, h1) = deepcopy h run_step_options
      in case get_step_id_to_skip_according_to_metadata env self of
           Inl e \<Rightarrow> (Inl e, h1)
         | Inr steps \<Rightarrow> (Inr copied, iadd_skip_steps h1 copied steps))"

section \<open>Calls that return or raise\<close>

text \<open>
  A call on the context returns a value or raises an exception; either way it leaves the
  context in some state.
\<close>

datatype 'a outcome =
    Returns 'a connector_context
  | Raises py_error connector_context

fun final_context :: "'a outcome \<Rightarrow> connector_context" where
  "final_context (Returns x c) = c"
| "final_context (Raises e c) = c"

text \<open>Sequencing: an exception ends the sequence.\<close>

fun then_do :: "'a outcome \<Rightarrow> ('a \<Rightarrow> connector_context \<Rightarrow> 'b outcome) \<Rightarrow> 'b outcome" where
  "then_do (Returns x c) f = f x c"
| "then_do (Raises e c) f = Raises e c"

text \<open>
  A call of an external collaborator: the call is recorded, then it returns (\<open>None\<close>) or
  raises.
\<close>

definition call :: "event \<Rightarrow> py_error option \<Rightarrow> connector_context \<Rightarrow> unit outcome" where
  "call ev res self =
     (let self' = self\<lparr>trace := trace self @ [ev]\<rparr>
      in case res of None \<Rightarrow> Returns () self' | Some e \<Rightarrow> Raises e self')"

definition logger_error :: "string \<Rightarrow> connector_context \<Rightarrow> connector_context" where
  "logger_error msg self = self\<lparr>trace := trace self @ [LoggerError msg]\<rparr>"

section \<open>Connector secrets\<close>





section \<open>Teardown\<close>

text \<open>
  The collaborators of teardown, none of which is defined in the module: the clock, the
  base class's \<^verbatim>\<open>determine_final_state\<close>, \<^verbatim>\<open>secrets.upload\<close>, the report's \<^verbatim>\<open>print\<close> and
  \<^verbatim>\<open>save\<close>, \<^verbatim>\<open>update_commit_status_check\<close> and \<^verbatim>\<open>send_message_to_webhook\<close>. Each call
  returns (\<open>None\<close>) or raises (\<open>Some e\<close>).

  Modelled from the spec: \<^verbatim>\<open>determine_final_state\<close> computes the final run state from the
  existing report and any exception raised inside the scope.
\<close>

record collaborators =
  utcnow :: nat
  determine_final_state :: "report option \<Rightarrow> py_error option \<Rightarrow> context_state"
  secrets_upload :: "connector_context \<Rightarrow> py_error option"
  report_print :: "report \<Rightarrow> py_error option"
  report_save :: "report \<Rightarrow> py_error option"
  update_commit_status_check :: "connector_context \<Rightarrow> py_error option"
  send_message_to_webhook :: "string \<Rightarrow> string option \<Rightarrow> string option \<Rightarrow> py_error option"

text \<open>
  Modelled from the spec: the property \<^verbatim>\<open>should_send_slack_message\<close> of the base class
  holds when a notification target (webhook and channel) is configured; the source's
  comment says that it checks both for non nullity.
\<close>

definition should_send_slack_message :: "connector_context \<Rightarrow> bool" where
  "should_send_slack_message self =
     (slack_webhook self \<noteq> None \<and> reporting_slack_channel self \<noteq> None)"

text \<open>The method of the class itself; a subclass overrides it by another function.\<close>

definition create_slack_message :: "connector_context \<Rightarrow> py_error + string" where
  "create_slack_message self = Inl NotImplementedError"

text \<open>\<^verbatim>\<open>self.report.print()\<close> and \<^verbatim>\<open>self.report.save()\<close>: \<^verbatim>\<open>None\<close> has neither method.\<close>

definition report_print_step :: "collaborators \<Rightarrow> connector_context \<Rightarrow> unit outcome" where
  "report_print_step env self =
     (case report self of
        None \<Rightarrow> Raises AttributeError self
      | Some r \<Rightarrow> call (ReportPrint r) (report_print env r) self)"

definition report_save_step :: "collaborators \<Rightarrow> connector_context \<Rightarrow> unit outcome" where
  "report_save_step env self =
     (case report self of
        None \<Rightarrow> Raises AttributeError self
      | Some r \<Rightarrow> call (ReportSave r) (report_save env r) self)"

text \<open>
  The arguments of \<^verbatim>\<open>send_message_to_webhook\<close> are evaluated first, the message before
  the channel and the webhook.
\<close>

definition slack_step ::
  "collaborators \<Rightarrow> (connector_context \<Rightarrow> py_error + string) \<Rightarrow> connector_context
     \<Rightarrow> unit outcome" where
  "slack_step env slack_message self =
     (case slack_message self of
        Inl e \<Rightarrow> Raises e self
      | Inr msg \<Rightarrow>
          call (SlackMessage msg (reporting_slack_channel self) (slack_webhook self))
            (send_message_to_webhook env msg (reporting_slack_channel self) (slack_webhook self))
            self)"

text \<open>
  \<^verbatim>\<open>__aexit__\<close>. \<open>slack_message\<close> is the \<^verbatim>\<open>create_slack_message\<close> that the object's class
  provides; \<open>exception_value\<close> is the exception of the enclosed scope, if any.
\<close>

definition aexit ::
  "collaborators \<Rightarrow> (connector_context \<Rightarrow> py_error + string) \<Rightarrow> connector_context
     \<Rightarrow> py_error option \<Rightarrow> bool outcome" where
  "aexit env slack_message self0 exception_value =
     (let self1 = self0\<lparr>stopped_at := Some (utcnow env)\<rparr>;
          self2 = self1\<lparr>state := Some (determine_final_state env (report self1) exception_value)\<rparr>;
          self3 = (if exception_value \<noteq> None
                   then logger_error ''An error got handled by the ConnectorContext'' self2
                   else self2);
          self4 = (if report self3 = None
                   then (logger_error
                           ''No test report was provided. This is probably due to an upstream error''
                           self3)\<lparr>report := Some (ConnectorReport [])\<rparr>
                   else self3)
      in then_do (if should_save_updated_secrets self4
                  then call SecretsUpload (secrets_upload env self4) self4
                  else Returns () self4)
        (\<lambda>_ self5. then_do (report_print_step env self5)
        (\<lambda>_ self6. then_do (if should_save_report self6
                             then report_save_step env self6
                             else Returns () self6)
        (\<lambda>_ self7. then_do (call (CommitStatusCheckUpdate (state self7))
                                (update_commit_status_check env self7) self7)
        (\<lambda>_ self8. then_do (if should_send_slack_message self8
                             then slack_step env slack_message self8
                             else Returns () self8)
        (\<lambda>_ self9. Returns True self9))))))"

section \<open>Observing a call\<close>

text \<open>The exception a call raised, and the value it returned.\<close>

fun raised :: "'a outcome \<Rightarrow> py_error option" where
  "raised (Returns x c) = None"
| "raised (Raises e c) = Some e"

fun returned :: "'a outcome \<Rightarrow> 'a option" where
  "returned (Returns x c) = Some x"
| "returned (Raises e c) = None"

fun is_logger_error :: "event \<Rightarrow> bool" where
  "is_logger_error (LoggerError msg) = True"
| "is_logger_error SecretsFetch = False"
| "is_logger_error SecretsUpload = False"
| "is_logger_error (ReportPrint r) = False"
| "is_logger_error (ReportSave r) = False"
| "is_logger_error (CommitStatusCheckUpdate s) = False"
| "is_logger_error (SlackMessage m c w) = False"

fun is_slack_message :: "event \<Rightarrow> bool" where
  "is_slack_message (SlackMessage m c w) = True"
| "is_slack_message (LoggerError msg) = False"
| "is_slack_message SecretsFetch = False"
| "is_slack_message SecretsUpload = False"
| "is_slack_message (ReportPrint r) = False"
| "is_slack_message (ReportSave r) = False"
| "is_slack_message (CommitStatusCheckUpdate s) = False"

text \<open>The collaborator calls that a call on the context has made, in order.\<close>

definition collaborator_calls :: "connector_context \<Rightarrow> 'a outcome \<Rightarrow> event list" where
  "collaborator_calls self out =
     filter (\<lambda>ev. \<not> is_logger_error ev) (drop (length (trace self)) (trace (final_context out)))"

text \<open>The report that teardown works with: the attached one, or the empty default.\<close>

definition teardown_report :: "connector_context \<Rightarrow> report" where
  "teardown_report self = (case report self of None \<Rightarrow> ConnectorReport [] | Some r \<Rightarrow> r)"

text \<open>
  The context when the collaborator steps of teardown begin: the lines of \<^verbatim>\<open>__aexit__\<close>
  before the first external call.
\<close>

definition prepared :: "collaborators \<Rightarrow> connector_context \<Rightarrow> py_error option \<Rightarrow> connector_context" where
  "prepared env self0 exception_value =
     (let self1 = self0\<lparr>stopped_at := Some (utcnow env)\<rparr>;
          self2 = self1\<lparr>state := Some (determine_final_state env (report self1) exception_value)\<rparr>;
          self3 = (if exception_value \<noteq> None
                   then logger_error ''An error got handled by the ConnectorContext'' self2
                   else self2)
      in (if report self3 = None
          then (logger_error
                  ''No test report was provided. This is probably due to an upstream error''
                  self3)\<lparr>report := Some (ConnectorReport [])\<rparr>
          else self3))"

text \<open>The contexts between the collaborator steps, when the steps so far have returned.\<close>

definition after_upload :: "collaborators \<Rightarrow> connector_context \<Rightarrow> py_error option \<Rightarrow> connector_context" where
  "after_upload env self exc =
     (let c = prepared env self exc
      in if should_save_updated_secrets c then c\<lparr>trace := trace c @ [SecretsUpload]\<rparr> else c)"

definition after_print :: "collaborators \<Rightarrow> connector_context \<Rightarrow> py_error option \<Rightarrow> connector_context" where
  "after_print env self exc =
     (let c = after_upload env self exc
      in c\<lparr>trace := trace c @ [ReportPrint (teardown_report self)]\<rparr>)"

definition after_save :: "collaborators \<Rightarrow> connector_context \<Rightarrow> py_error option \<Rightarrow> connector_context" where
  "after_save env self exc =
     (let c = after_print env self exc
      in if should_save_report c
         then c\<lparr>trace := trace c @ [ReportSave (teardown_report self)]\<rparr> else c)"

definition after_status_check :: "collaborators \<Rightarrow> connector_context \<Rightarrow> py_error option \<Rightarrow> connector_context" where
  "after_status_check env self exc =
     (let c = after_save env self exc
      in c\<lparr>trace := trace c @ [CommitStatusCheckUpdate (state c)]\<rparr>)"

definition after_notification ::
  "collaborators \<Rightarrow> connector_context \<Rightarrow> py_error option \<Rightarrow> string \<Rightarrow> connector_context" where
  "after_notification env self exc msg =
     (let c = after_status_check env self exc
      in c\<lparr>trace := trace c @ [SlackMessage msg (reporting_slack_channel c) (slack_webhook c)]\<rparr>)"

text \<open>
  A collaborator step returns when it is skipped or its call, on the arguments teardown
  gives it, returns.
\<close>

definition upload_returns :: "collaborators \<Rightarrow> connector_context \<Rightarrow> py_error option \<Rightarrow> bool" where
  "upload_returns env self exc =
     (should_save_updated_secrets self \<longrightarrow> secrets_upload env (prepared env self exc) = None)"

definition print_returns :: "collaborators \<Rightarrow> connector_context \<Rightarrow> bool" where
  "print_returns env self = (report_print env (teardown_report self) = None)"

definition save_returns :: "collaborators \<Rightarrow> connector_context \<Rightarrow> bool" where
  "save_returns env self =
     (should_save_report self \<longrightarrow> report_save env (teardown_report self) = None)"

definition status_check_returns :: "collaborators \<Rightarrow> connector_context \<Rightarrow> py_error option \<Rightarrow> bool" where
  "status_check_returns env self exc =
     (update_commit_status_check env (after_save env self exc) = None)"

definition notification_returns ::
  "collaborators \<Rightarrow> (connector_context \<Rightarrow> py_error + string) \<Rightarrow> connector_context
     \<Rightarrow> py_error option \<Rightarrow> bool" where
  "notification_returns env slack_message self exc =
     (should_send_slack_message self \<longrightarrow>
        (\<exists>msg. slack_message (after_status_check env self exc) = Inr msg
            \<and> send_message_to_webhook env msg (reporting_slack_channel self) (slack_webhook self)
                = None))"

text \<open>
  The invariant of the collaborator steps: the report stays the one teardown works with,
  and the trace grows by collaborator calls that are given that report.
\<close>

fun step_event :: "report \<Rightarrow> event \<Rightarrow> bool" where
  "step_event R (LoggerError msg) = False"
| "step_event R SecretsFetch = False"
| "step_event R SecretsUpload = True"
| "step_event R (ReportPrint r) = (r = R)"
| "step_event R (ReportSave r) = (r = R)"
| "step_event R (CommitStatusCheckUpdate s) = True"
| "step_event R (SlackMessage m c w) = True"

definition teardown_inv :: "report \<Rightarrow> event list \<Rightarrow> connector_context \<Rightarrow> bool" where
  "teardown_inv R T c = (report c = Some R \<and> (\<exists>evs. trace c = T @ evs \<and> list_all (step_event R) evs))"

section \<open>Example values\<close>

text \<open>A context for the connector \<^verbatim>\<open>source-foo\<close>, freshly constructed.\<close>

definition example_context :: connector_context where
  "example_context =
     \<lparr>code_directory = [''airbyte-integrations'', ''connectors'', ''source-foo''],
      use_remote_secrets = True,
      updated_secrets_dir = None,
      should_save_report = True,
      docker_hub_username = None,
      docker_hub_password = None,
      s3_build_cache_access_key_id = None,
      s3_build_cache_secret_key = None,
      connector_secrets = None,
      slack_webhook = None,
      reporting_slack_channel = None,
      report = None,
      state = None,
      stopped_at = None,
      trace = []\<rparr>"

text \<open>
  A parser that knows a few documents, and an environment in which the descriptor of the
  example connector is absent (\<open>None\<close>) or holds the given text.
\<close>

definition example_safe_load :: "string \<Rightarrow> yaml option" where
  "example_safe_load text =
     (if text = ''data: {dockerRepository: airbyte/source-foo, dockerImageTag: 1.2.3}''
      then Some (YMap [(''data'', YMap [(''dockerRepository'', YStr ''airbyte/source-foo''),
                                        (''dockerImageTag'', YStr ''1.2.3'')])])
      else if text = ''data: {connectorTestSuitesOptions: [{suite: unitTests}]}''
      then Some (YMap [(''data'', YMap [(''connectorTestSuitesOptions'',
                                         YSeq [YMap [(''suite'', YStr ''unitTests'')]])])])
      else if text = ''data: 5'' then Some (YMap [(''data'', YInt 5)])
      else if text = ''{}'' then Some (YMap [])
      else if text = '''' then Some YNull
      else None)"

definition example_environment :: "string option \<Rightarrow> environment" where
  "example_environment descriptor =
     \<lparr>METADATA_FILE_NAME = ''metadata.yaml'',
      files = (\<lambda>p. if p = [''airbyte-integrations'', ''connectors'', ''source-foo'', ''metadata.yaml'']
                   then descriptor else None),
      safe_load = example_safe_load\<rparr>"


text \<open>\<^verbatim>\<open>isinstance(value, dict)\<close>.\<close>

fun is_dict :: "yaml \<Rightarrow> bool" where
  "is_dict (YMap kvs) = True"
| "is_dict YNull = False"
| "is_dict (YBool b) = False"
| "is_dict (YInt i) = False"
| "is_dict (YStr s) = False"
| "is_dict (YSeq xs) = False"



text \<open>A store with one configuration object, whose skip list has two steps.\<close>

definition example_heap :: heap where
  "example_heap =
     \<lparr>list_objs = [[INTEGRATION, OTHER_STEP ''qa_checks'']],
      option_objs = [\<lparr>skip_steps = 0, settings = ''fail_fast''\<rparr>]\<rparr>"

text \<open>
  Collaborators that all return, a subclass's \<^verbatim>\<open>create_slack_message\<close>, a context with a
  notification target, and collaborators of which one raises.
\<close>

definition example_collaborators :: collaborators where
  "example_collaborators =
     \<lparr>utcnow = 1700000000,
      determine_final_state =
        (\<lambda>rep exc. if exc \<noteq> None \<or> rep = None then ERROR else SUCCESSFUL),
      secrets_upload = (\<lambda>self. None),
      report_print = (\<lambda>r. None),
      report_save = (\<lambda>r. None),
      update_commit_status_check = (\<lambda>self. None),
      send_message_to_webhook = (\<lambda>msg channel webhook. None)\<rparr>"

definition example_slack_message :: "connector_context \<Rightarrow> py_error + string" where
  "example_slack_message self = Inr ''source-foo: done''"

definition notified_context :: connector_context where
  "notified_context =
     example_context\<lparr>slack_webhook := Some ''https://hooks.slack.example/T000'',
                     reporting_slack_channel := Some ''#connector-ci''\<rparr>"

definition failing_status_check :: collaborators where
  "failing_status_check =
     example_collaborators
       \<lparr>update_commit_status_check := (\<lambda>c. Some (RuntimeError ''github unavailable''))\<rparr>"

definition failing_upload :: collaborators where
  "failing_upload =
     example_collaborators\<lparr>secrets_upload := (\<lambda>c. Some (RuntimeError ''secret store unavailable''))\<rparr>"

definition failing_save :: collaborators where
  "failing_save =
     example_collaborators\<lparr>report_save := (\<lambda>r. Some (RuntimeError ''bucket unreachable''))\<rparr>"

definition failing_print :: collaborators where
  "failing_print =
     example_collaborators\<lparr>report_print := (\<lambda>r. Some (RuntimeError ''sink closed''))\<rparr>"

definition failing_send :: collaborators where
  "failing_send =
     example_collaborators
       \<lparr>send_message_to_webhook := (\<lambda>msg channel webhook. Some (RuntimeError ''slack down''))\<rparr>"

section \<open>Credential accessors: properties\<close>

text \<open>
  Counterexample to claim C6 as stated: with the access key set and the secret key set to
  the empty string, both fields are set, and the accessor returns no secret.
\<close>

theorem s3_secret_key_counterexample:
  "s3_build_cache_access_key_id
       (example_context\<lparr>s3_build_cache_access_key_id := Some ''AKIA'',
                         s3_build_cache_secret_key := Some ''''\<rparr>) = Some ''AKIA''
   \<and> s3_build_cache_secret_key
       (example_context\<lparr>s3_build_cache_access_key_id := Some ''AKIA'',
                         s3_build_cache_secret_key := Some ''''\<rparr>) = Some ''''
   \<and> s3_build_cache_secret_key_secret
       (example_context\<lparr>s3_build_cache_access_key_id := Some ''AKIA'',
                         s3_build_cache_secret_key := Some ''''\<rparr>) = None"
  by (simp add: s3_build_cache_secret_key_secret_def example_context_def)

text \<open>
  Claim C6, amended: \<open>s3_build_cache_secret_key_secret\<close> returns no secret whenever either
  \<open>s3_build_cache_access_key_id\<close> or \<open>s3_build_cache_secret_key\<close> is unset or the empty
  string, in particular when only the access key is set, and returns the secret handle
  named \<^verbatim>\<open>s3_build_cache_secret_key\<close> that wraps the secret-key string when both fields are
  set to non-empty strings.
\<close>

theorem s3_secret_key_secret_cases:
  "(s3_build_cache_access_key_id self = None \<or> s3_build_cache_secret_key self = None
      \<longrightarrow> s3_build_cache_secret_key_secret self = None)
   \<and> (s3_build_cache_access_key_id self = Some [] \<or> s3_build_cache_secret_key self = Some []
      \<longrightarrow> s3_build_cache_secret_key_secret self = None)
   \<and> (\<forall>a s. s3_build_cache_access_key_id self = Some a \<and> a \<noteq> []
            \<and> s3_build_cache_secret_key self = Some s \<and> s \<noteq> []
      \<longrightarrow> s3_build_cache_secret_key_secret self = Some (set_secret ''s3_build_cache_secret_key'' s))"
  by (auto simp: s3_build_cache_secret_key_secret_def)

theorem s3_secret_key_secret_cases_witness:
  "s3_build_cache_secret_key_secret
       (example_context\<lparr>s3_build_cache_access_key_id := Some ''AKIA''\<rparr>) = None
   \<and> s3_build_cache_secret_key_secret
       (example_context\<lparr>s3_build_cache_access_key_id := Some ''''\<rparr>) = None
   \<and> s3_build_cache_secret_key_secret
       (example_context\<lparr>s3_build_cache_access_key_id := Some ''AKIA'',
                         s3_build_cache_secret_key := Some ''s3cr3t''\<rparr>)
       = Some (set_secret ''s3_build_cache_secret_key'' ''s3cr3t'')"
  using s3_secret_key_secret_cases
          [of "example_context\<lparr>s3_build_cache_access_key_id := Some ''AKIA''\<rparr>"]
        s3_secret_key_secret_cases
          [of "example_context\<lparr>s3_build_cache_access_key_id := Some ''''\<rparr>"]
        s3_secret_key_secret_cases
          [of "example_context\<lparr>s3_build_cache_access_key_id := Some ''AKIA'',
                                 s3_build_cache_secret_key := Some ''s3cr3t''\<rparr>"]
  by (simp add: example_context_def)

text \<open>
  Claim C9: an empty-string credential is treated differently by the two pairs of
  accessors. The build-cache accessors return no secret when their field is the empty
  string; the Docker Hub accessors return a handle that wraps the empty string, and
  return no secret only when the field is \<^verbatim>\<open>None\<close>.
\<close>

theorem empty_credential_inconsistency:
  "s3_build_cache_access_key_id_secret (self\<lparr>s3_build_cache_access_key_id := Some ''''\<rparr>) = None
   \<and> s3_build_cache_secret_key_secret (self\<lparr>s3_build_cache_secret_key := Some ''''\<rparr>) = None
   \<and> docker_hub_username_secret (self\<lparr>docker_hub_username := Some ''''\<rparr>)
       = Some (set_secret ''docker_hub_username'' '''')
   \<and> docker_hub_password_secret (self\<lparr>docker_hub_password := Some ''''\<rparr>)
       = Some (set_secret ''docker_hub_password'' '''')
   \<and> (docker_hub_username_secret self = None) = (docker_hub_username self = None)
   \<and> (docker_hub_password_secret self = None) = (docker_hub_password self = None)"
  by (simp add: s3_build_cache_access_key_id_secret_def s3_build_cache_secret_key_secret_def
      docker_hub_username_secret_def docker_hub_password_secret_def split: option.split)

section \<open>The step-skip policy: properties\<close>

lemma table_cases:
  "(n, step_id) \<in> set TEST_SUITE_NAME_TO_STEP_ID \<longleftrightarrow>
     (n = ''unitTests'' \<and> step_id = UNIT) \<or> (n = ''integrationTests'' \<and> step_id = INTEGRATION)
     \<or> (n = ''acceptanceTests'' \<and> step_id = ACCEPTANCE)"
  by (simp add: TEST_SUITE_NAME_TO_STEP_ID_def)

lemma skipped_filter:
  "map snd (filter (\<lambda>(n, step_id). YStr n \<notin> E) TEST_SUITE_NAME_TO_STEP_ID) =
     (if YStr ''unitTests'' \<notin> E then [UNIT] else []) @
     (if YStr ''integrationTests'' \<notin> E then [INTEGRATION] else []) @
     (if YStr ''acceptanceTests'' \<notin> E then [ACCEPTANCE] else [])"
  by (simp add: TEST_SUITE_NAME_TO_STEP_ID_def)

lemma skipped_single:
  assumes "E = {YStr n}" and "(n, step_id) \<in> set TEST_SUITE_NAME_TO_STEP_ID"
  shows "set (map snd (filter (\<lambda>(n, step_id). YStr n \<notin> E) TEST_SUITE_NAME_TO_STEP_ID))
           = {UNIT, INTEGRATION, ACCEPTANCE} - {step_id}"
proof -
  from assms(2) consider "n = ''unitTests'' \<and> step_id = UNIT"
    | "n = ''integrationTests'' \<and> step_id = INTEGRATION"
    | "n = ''acceptanceTests'' \<and> step_id = ACCEPTANCE"
    unfolding table_cases by blast
  then show ?thesis
  proof cases
    case 1
    then have "E = {YStr ''unitTests''}" and "step_id = UNIT"
      using assms(1) by simp_all
    then show ?thesis by (simp only: skipped_filter) auto
  next
    case 2
    then have "E = {YStr ''integrationTests''}" and "step_id = INTEGRATION"
      using assms(1) by simp_all
    then show ?thesis by (simp only: skipped_filter) auto
  next
    case 3
    then have "E = {YStr ''acceptanceTests''}" and "step_id = ACCEPTANCE"
      using assms(1) by simp_all
    then show ?thesis by (simp only: skipped_filter) auto
  qed
qed

lemma option_suites_Inr:
  "list_all2 (\<lambda>opt name. \<exists>kvs. opt = YMap kvs \<and> map_of kvs ''suite'' = Some name) opts names
   \<Longrightarrow> option_suites opts = Inr names"
  by (induction opts names rule: list_all2_induct) auto

lemma enabled_test_suites_Inr:
  assumes "(map_of md ''connectorTestSuitesOptions'' = None \<and> names = []) \<or>
           (\<exists>opts. map_of md ''connectorTestSuitesOptions'' = Some (YSeq opts) \<and>
              list_all2 (\<lambda>opt name. \<exists>kvs. opt = YMap kvs \<and> map_of kvs ''suite'' = Some name)
                opts names)"
  shows "\<exists>options opts. dict_get (YMap md) ''connectorTestSuitesOptions'' (YSeq []) = Inr options
           \<and> iterate options = Inr opts \<and> option_suites opts = Inr names"
  using assms by (auto simp: option_suites_Inr)

lemma skip_of_metadata:
  assumes "metadata env self = Inr (YMap md)"
    and "(map_of md ''connectorTestSuitesOptions'' = None \<and> names = []) \<or>
         (\<exists>opts. map_of md ''connectorTestSuitesOptions'' = Some (YSeq opts) \<and>
            list_all2 (\<lambda>opt name. \<exists>kvs. opt = YMap kvs \<and> map_of kvs ''suite'' = Some name)
              opts names)"
  shows "get_step_id_to_skip_according_to_metadata env self =
           Inr (map snd (filter (\<lambda>(n, step_id). YStr n \<notin> set names) TEST_SUITE_NAME_TO_STEP_ID))"
proof -
  obtain options opts where
    "dict_get (YMap md) ''connectorTestSuitesOptions'' (YSeq []) = Inr options"
    "iterate options = Inr opts" "option_suites opts = Inr names"
    using enabled_test_suites_Inr [OF assms(2)] by blast
  with assms(1) show ?thesis
    by (simp add: get_step_id_to_skip_according_to_metadata_def)
qed

lemma skipped_member:
  "step_id \<in> set (map snd (filter (\<lambda>(n, step_id). YStr n \<notin> E) TEST_SUITE_NAME_TO_STEP_ID)) \<longleftrightarrow>
     (\<exists>n. (n, step_id) \<in> set TEST_SUITE_NAME_TO_STEP_ID \<and> YStr n \<notin> E)"
  by force



text \<open>
  Claim C1: for metadata whose \<^verbatim>\<open>connectorTestSuitesOptions\<close> is absent, or a list of
  options that each carry a \<^verbatim>\<open>suite\<close> field (\<open>names\<close> are the suites listed), the policy
  returns, without repetition, exactly the step identifiers of the recognized suites whose
  name is not among \<open>names\<close>: all three when nothing is listed, and the other two when
  exactly one recognized suite is listed.
\<close>

theorem step_ids_to_skip:
  assumes "metadata env self = Inr (YMap md)"
    and "(map_of md ''connectorTestSuitesOptions'' = None \<and> names = []) \<or>
         (\<exists>opts. map_of md ''connectorTestSuitesOptions'' = Some (YSeq opts) \<and>
            list_all2 (\<lambda>opt name. \<exists>kvs. opt = YMap kvs \<and> map_of kvs ''suite'' = Some name)
              opts names)"
  shows "\<exists>skip. get_step_id_to_skip_according_to_metadata env self = Inr skip
     \<and> distinct skip
     \<and> (\<forall>step_id. step_id \<in> set skip \<longleftrightarrow>
           (\<exists>n. (n, step_id) \<in> set TEST_SUITE_NAME_TO_STEP_ID \<and> YStr n \<notin> set names))
     \<and> (names = [] \<longrightarrow> skip = [UNIT, INTEGRATION, ACCEPTANCE])
     \<and> (\<forall>n step_id. set names = {YStr n} \<and> (n, step_id) \<in> set TEST_SUITE_NAME_TO_STEP_ID
           \<longrightarrow> set skip = {UNIT, INTEGRATION, ACCEPTANCE} - {step_id})"
proof (intro exI conjI allI impI)
  let ?skip = "map snd (filter (\<lambda>(n, step_id). YStr n \<notin> set names) TEST_SUITE_NAME_TO_STEP_ID)"
  show "get_step_id_to_skip_according_to_metadata env self = Inr ?skip"
    by (rule skip_of_metadata [OF assms])
  show "distinct ?skip"
    by (simp only: skipped_filter) simp
  show "step_id \<in> set ?skip \<longleftrightarrow>
           (\<exists>n. (n, step_id) \<in> set TEST_SUITE_NAME_TO_STEP_ID \<and> YStr n \<notin> set names)"
    for step_id
    by (rule skipped_member)
  show "?skip = [UNIT, INTEGRATION, ACCEPTANCE]" if "names = []"
    using that by (simp add: TEST_SUITE_NAME_TO_STEP_ID_def)
  show "set ?skip = {UNIT, INTEGRATION, ACCEPTANCE} - {step_id}"
    if "set names = {YStr n} \<and> (n, step_id) \<in> set TEST_SUITE_NAME_TO_STEP_ID" for n step_id
    using that by (intro skipped_single) blast+
qed

lemma example_metadata:
  "metadata (example_environment (Some ''data: {connectorTestSuitesOptions: [{suite: unitTests}]}''))
      example_context
   = Inr (YMap [(''connectorTestSuitesOptions'', YSeq [YMap [(''suite'', YStr ''unitTests'')]])])"
  by (simp add: metadata_def read_text_def metadata_path_def example_environment_def
      example_context_def example_safe_load_def)

theorem step_ids_to_skip_witness:
  "metadata (example_environment (Some ''data: {connectorTestSuitesOptions: [{suite: unitTests}]}''))
      example_context
   = Inr (YMap [(''connectorTestSuitesOptions'', YSeq [YMap [(''suite'', YStr ''unitTests'')]])])
   \<and> (\<exists>skip. get_step_id_to_skip_according_to_metadata
         (example_environment (Some ''data: {connectorTestSuitesOptions: [{suite: unitTests}]}''))
         example_context = Inr skip \<and> set skip = {INTEGRATION, ACCEPTANCE})
   \<and> get_step_id_to_skip_according_to_metadata
       (example_environment
          (Some ''data: {dockerRepository: airbyte/source-foo, dockerImageTag: 1.2.3}''))
       example_context = Inr [UNIT, INTEGRATION, ACCEPTANCE]"
proof -
  let ?env = "example_environment (Some ''data: {connectorTestSuitesOptions: [{suite: unitTests}]}'')"
  let ?md = "[(''connectorTestSuitesOptions'', YSeq [YMap [(''suite'', YStr ''unitTests'')]])]"
  have m: "metadata ?env example_context = Inr (YMap ?md)"
    by (rule example_metadata)
  have w: "(map_of ?md ''connectorTestSuitesOptions'' = None \<and> [YStr ''unitTests''] = []) \<or>
         (\<exists>opts. map_of ?md ''connectorTestSuitesOptions'' = Some (YSeq opts) \<and>
            list_all2 (\<lambda>opt name. \<exists>kvs. opt = YMap kvs \<and> map_of kvs ''suite'' = Some name)
              opts [YStr ''unitTests''])"
    by simp
  have t: "set [YStr ''unitTests''] = {YStr ''unitTests''}
             \<and> (''unitTests'', UNIT) \<in> set TEST_SUITE_NAME_TO_STEP_ID"
    by (simp add: TEST_SUITE_NAME_TO_STEP_ID_def)
  obtain skip where s: "get_step_id_to_skip_according_to_metadata ?env example_context = Inr skip"
    and "\<forall>n step_id. set [YStr ''unitTests''] = {YStr n}
           \<and> (n, step_id) \<in> set TEST_SUITE_NAME_TO_STEP_ID
           \<longrightarrow> set skip = {UNIT, INTEGRATION, ACCEPTANCE} - {step_id}"
    using step_ids_to_skip [OF m w] by blast
  with t have "set skip = {UNIT, INTEGRATION, ACCEPTANCE} - {UNIT}"
    by blast
  then have 1: "set skip = {INTEGRATION, ACCEPTANCE}"
    by auto
  let ?env2 = "example_environment
          (Some ''data: {dockerRepository: airbyte/source-foo, dockerImageTag: 1.2.3}'')"
  let ?md2 = "[(''dockerRepository'', YStr ''airbyte/source-foo''), (''dockerImageTag'', YStr ''1.2.3'')]"
  have m2: "metadata ?env2 example_context = Inr (YMap ?md2)"
    by (simp add: metadata_def read_text_def metadata_path_def example_environment_def
      example_context_def example_safe_load_def)
  have w2: "(map_of ?md2 ''connectorTestSuitesOptions'' = None \<and> [] = ([] :: yaml list)) \<or>
         (\<exists>opts. map_of ?md2 ''connectorTestSuitesOptions'' = Some (YSeq opts) \<and>
            list_all2 (\<lambda>opt name. \<exists>kvs. opt = YMap kvs \<and> map_of kvs ''suite'' = Some name)
              opts [])"
    by simp
  obtain skip2 where "get_step_id_to_skip_according_to_metadata ?env2 example_context = Inr skip2"
    and "([] :: yaml list) = [] \<longrightarrow> skip2 = [UNIT, INTEGRATION, ACCEPTANCE]"
    using step_ids_to_skip [OF m2 w2] by blast
  then have 2: "get_step_id_to_skip_according_to_metadata ?env2 example_context
                  = Inr [UNIT, INTEGRATION, ACCEPTANCE]"
    by simp
  from m s 1 2 show ?thesis by blast
qed


section \<open>The metadata accessor: properties\<close>

text \<open>
  Counterexample to claim C8 as stated. A descriptor whose \<^verbatim>\<open>data\<close> section is the number
  5 is returned as it is: the accessor neither fails nor returns a mapping. And the
  failures are the exceptions of the calls the accessor makes, not metadata errors of its
  own: \<^verbatim>\<open>FileNotFoundError\<close> from reading the absent file, the parser's
  \<^verbatim>\<open>YAMLError\<close> for a malformed document, and a \<^verbatim>\<open>KeyError\<close> (not the parser's error)
  for a document without the \<^verbatim>\<open>data\<close> key.
\<close>

theorem metadata_counterexample:
  "metadata (example_environment (Some ''data: 5'')) example_context = Inr (YInt 5)
   \<and> \<not> is_dict (YInt 5)
   \<and> metadata (example_environment None) example_context = Inl FileNotFoundError
   \<and> metadata (example_environment (Some ''{'')) example_context = Inl YAMLError
   \<and> metadata (example_environment (Some ''{}'')) example_context = Inl KeyError"
  by (simp add: metadata_def read_text_def metadata_path_def example_environment_def
      example_context_def example_safe_load_def)

text \<open>
  Claim C8, amended: the metadata accessor fails with \<^verbatim>\<open>FileNotFoundError\<close> when the
  descriptor file is absent from the connector's source directory, with the parser's
  \<^verbatim>\<open>YAMLError\<close> when the document is malformed, with \<^verbatim>\<open>KeyError\<close> when the document is
  a mapping without the top-level \<^verbatim>\<open>data\<close> key, and with \<^verbatim>\<open>TypeError\<close> when the document
  is not a mapping; otherwise it returns the value of the \<^verbatim>\<open>data\<close> key as it is.
\<close>

theorem metadata_outcomes:
  "(files env (metadata_path env self) = None \<longrightarrow> metadata env self = Inl FileNotFoundError)
   \<and> (\<forall>content. files env (metadata_path env self) = Some content \<and> safe_load env content = None
        \<longrightarrow> metadata env self = Inl YAMLError)
   \<and> (\<forall>content kvs. files env (metadata_path env self) = Some content
          \<and> safe_load env content = Some (YMap kvs) \<and> map_of kvs ''data'' = None
        \<longrightarrow> metadata env self = Inl KeyError)
   \<and> (\<forall>content doc. files env (metadata_path env self) = Some content
          \<and> safe_load env content = Some doc \<and> \<not> is_dict doc
        \<longrightarrow> metadata env self = Inl TypeError)
   \<and> (\<forall>content kvs v. files env (metadata_path env self) = Some content
          \<and> safe_load env content = Some (YMap kvs) \<and> map_of kvs ''data'' = Some v
        \<longrightarrow> metadata env self = Inr v)"
proof (intro conjI allI impI)
  show "metadata env self = Inl TypeError"
    if "files env (metadata_path env self) = Some content
          \<and> safe_load env content = Some doc \<and> \<not> is_dict doc" for content doc
    using that by (cases doc) (simp_all add: metadata_def read_text_def)
qed (simp_all add: metadata_def read_text_def)

theorem metadata_outcomes_witness:
  "metadata (example_environment None) example_context = Inl FileNotFoundError
   \<and> metadata (example_environment (Some ''{'')) example_context = Inl YAMLError
   \<and> metadata (example_environment (Some ''{}'')) example_context = Inl KeyError
   \<and> metadata (example_environment (Some '''')) example_context = Inl TypeError
   \<and> metadata
        (example_environment
           (Some ''data: {dockerRepository: airbyte/source-foo, dockerImageTag: 1.2.3}''))
        example_context
      = Inr (YMap [(''dockerRepository'', YStr ''airbyte/source-foo''),
                   (''dockerImageTag'', YStr ''1.2.3'')])"
proof -
  have p: "metadata_path (example_environment d) example_context
             = [''airbyte-integrations'', ''connectors'', ''source-foo'', ''metadata.yaml'']" for d
    by (simp add: metadata_path_def example_environment_def example_context_def)
  have f: "files (example_environment d) (metadata_path (example_environment d) example_context) = d"
    for d
    by (simp add: p) (simp add: example_environment_def)
  have s: "safe_load (example_environment d) = example_safe_load" for d
    by (simp add: example_environment_def)
  have 1: "metadata (example_environment None) example_context = Inl FileNotFoundError"
    using metadata_outcomes [of "example_environment None" example_context] f [of None]
    by blast
  have 2: "metadata (example_environment (Some ''{'')) example_context = Inl YAMLError"
  proof -
    have "safe_load (example_environment (Some ''{'')) ''{'' = None"
      by (simp add: s example_safe_load_def)
    with metadata_outcomes [of "example_environment (Some ''{'')" example_context]
      f [of "Some ''{''"]
    show ?thesis by blast
  qed
  have 3: "metadata (example_environment (Some ''{}'')) example_context = Inl KeyError"
  proof -
    have "safe_load (example_environment (Some ''{}'')) ''{}'' = Some (YMap [])"
      and "map_of ([] :: (string \<times> yaml) list) ''data'' = None"
      by (simp_all add: s example_safe_load_def)
    with metadata_outcomes [of "example_environment (Some ''{}'')" example_context]
      f [of "Some ''{}''"]
    show ?thesis by blast
  qed
  have 4: "metadata (example_environment (Some '''')) example_context = Inl TypeError"
  proof -
    have "safe_load (example_environment (Some '''')) '''' = Some YNull" and "\<not> is_dict YNull"
      by (simp_all add: s example_safe_load_def)
    with metadata_outcomes [of "example_environment (Some '''')" example_context]
      f [of "Some ''''"]
    show ?thesis by blast
  qed
  let ?text = "''data: {dockerRepository: airbyte/source-foo, dockerImageTag: 1.2.3}''"
  let ?data = "YMap [(''dockerRepository'', YStr ''airbyte/source-foo''),
                     (''dockerImageTag'', YStr ''1.2.3'')]"
  have 5: "metadata (example_environment (Some ?text)) example_context = Inr ?data"
  proof -
    have "safe_load (example_environment (Some ?text)) ?text = Some (YMap [(''data'', ?data)])"
      and "map_of [(''data'', ?data)] ''data'' = Some ?data"
      by (simp_all add: s example_safe_load_def)
    with metadata_outcomes [of "example_environment (Some ?text)" example_context]
      f [of "Some ?text"]
    show ?thesis by blast
  qed
  from 1 2 3 4 5 show ?thesis by blast
qed

section \<open>Connector secrets: properties\<close>













section \<open>Run-step options: properties\<close>

text \<open>
  Claim C5: applied to a valid configuration object, the policy returns a new object
  (a new address, with a new list object) whose skip list is the original skip list with
  the computed steps appended, duplicates included, and whose other settings are those of
  the original; every object that existed before the call, the original configuration
  and its skip list among them, is as it was, also when the metadata policy raises.
\<close>

theorem skip_metadata_disabled_test_suites_copy:
  assumes "valid_options h a"
  shows "\<exists>r h'. skip_metadata_disabled_test_suites env self h a = (r, h')
     \<and> (\<forall>b. b < length (option_objs h) \<longrightarrow> option_objs h' ! b = option_objs h ! b)
     \<and> (\<forall>l. l < length (list_objs h) \<longrightarrow> list_objs h' ! l = list_objs h ! l)
     \<and> skip_list_of h' a = skip_list_of h a
     \<and> (\<forall>e. get_step_id_to_skip_according_to_metadata env self = Inl e \<longrightarrow> r = Inl e)
     \<and> (\<forall>steps. get_step_id_to_skip_according_to_metadata env self = Inr steps \<longrightarrow>
           (\<exists>a'. r = Inr a' \<and> a' \<noteq> a \<and> length (option_objs h) \<le> a' \<and> valid_options h' a'
              \<and> length (list_objs h) \<le> skip_steps (option_objs h' ! a')
              \<and> settings (option_objs h' ! a') = settings (option_objs h ! a)
              \<and> skip_list_of h' a' = skip_list_of h a @ steps))"
proof (cases "get_step_id_to_skip_according_to_metadata env self")
  case (Inl e)
  with assms show ?thesis
    by (simp add: skip_metadata_disabled_test_suites_def deepcopy_def Let_def skip_list_of_def
        valid_options_def nth_append)
next
  case (Inr steps)
  with assms show ?thesis
    by (simp add: skip_metadata_disabled_test_suites_def deepcopy_def iadd_skip_steps_def Let_def
        skip_list_of_def valid_options_def nth_append nth_list_update)
qed

theorem skip_metadata_disabled_test_suites_copy_witness:
  "valid_options example_heap 0
   \<and> skip_metadata_disabled_test_suites
        (example_environment (Some ''data: {connectorTestSuitesOptions: [{suite: unitTests}]}''))
        example_context example_heap 0
      = (Inr 1,
         \<lparr>list_objs = [[INTEGRATION, OTHER_STEP ''qa_checks''],
                       [INTEGRATION, OTHER_STEP ''qa_checks'', INTEGRATION, ACCEPTANCE]],
          option_objs = [\<lparr>skip_steps = 0, settings = ''fail_fast''\<rparr>,
                         \<lparr>skip_steps = 1, settings = ''fail_fast''\<rparr>]\<rparr>)"
proof -
  let ?env = "example_environment (Some ''data: {connectorTestSuitesOptions: [{suite: unitTests}]}'')"
  have v: "valid_options example_heap 0"
    by (simp add: valid_options_def example_heap_def)
  have s: "get_step_id_to_skip_according_to_metadata ?env example_context = Inr [INTEGRATION, ACCEPTANCE]"
    by (simp add: get_step_id_to_skip_according_to_metadata_def metadata_def read_text_def
        metadata_path_def example_environment_def example_context_def example_safe_load_def
        TEST_SUITE_NAME_TO_STEP_ID_def)
  obtain r h' where
    "skip_metadata_disabled_test_suites ?env example_context example_heap 0 = (r, h')"
    using skip_metadata_disabled_test_suites_copy [OF v, where env = ?env and self = example_context]
    by (elim exE conjE)
  then show ?thesis
    using v s
    by (simp add: skip_metadata_disabled_test_suites_def deepcopy_def iadd_skip_steps_def Let_def
        example_heap_def)
qed


section \<open>Teardown: properties\<close>

lemma then_do_inv:
  "I (final_context out) \<Longrightarrow> (\<And>x c. I c \<Longrightarrow> I (final_context (f x c)))
   \<Longrightarrow> I (final_context (then_do out f))"
  by (cases out) auto

lemma call_inv:
  "teardown_inv R T c \<Longrightarrow> step_event R ev \<Longrightarrow> teardown_inv R T (final_context (call ev res c))"
  by (auto simp: teardown_inv_def call_def Let_def split: option.splits)

lemma report_print_step_inv:
  assumes "teardown_inv R T c"
  shows "teardown_inv R T (final_context (report_print_step env c))"
proof -
  from assms have "report c = Some R"
    by (simp add: teardown_inv_def)
  with assms show ?thesis
    by (simp add: report_print_step_def call_inv)
qed

lemma report_save_step_inv:
  assumes "teardown_inv R T c"
  shows "teardown_inv R T (final_context (report_save_step env c))"
proof -
  from assms have "report c = Some R"
    by (simp add: teardown_inv_def)
  with assms show ?thesis
    by (simp add: report_save_step_def call_inv)
qed

lemma slack_step_inv:
  "teardown_inv R T c \<Longrightarrow> teardown_inv R T (final_context (slack_step env sm c))"
  by (cases "sm c") (auto simp: slack_step_def intro!: call_inv)

lemma aexit_prepared:
  "aexit env sm self exc =
     then_do (if should_save_updated_secrets (prepared env self exc)
                  then call SecretsUpload (secrets_upload env (prepared env self exc)) (prepared env self exc)
                  else Returns () (prepared env self exc))
        (\<lambda>_ self5. then_do (report_print_step env self5)
        (\<lambda>_ self6. then_do (if should_save_report self6
                             then report_save_step env self6
                             else Returns () self6)
        (\<lambda>_ self7. then_do (call (CommitStatusCheckUpdate (state self7))
                                (update_commit_status_check env self7) self7)
        (\<lambda>_ self8. then_do (if should_send_slack_message self8
                             then slack_step env sm self8
                             else Returns () self8)
        (\<lambda>_ self9. Returns True self9)))))"
  unfolding aexit_def prepared_def Let_def ..

lemma aexit_inv:
  assumes "teardown_inv R T (prepared env self exc)"
  shows "teardown_inv R T (final_context (aexit env sm self exc))"
  unfolding aexit_prepared using assms
  by (intro then_do_inv [where I = "teardown_inv R T"])
     (simp_all add: call_inv report_print_step_inv report_save_step_inv slack_step_inv)

lemma prepared_report:
  "report (prepared env self exc)
     = Some (case report self of None \<Rightarrow> ConnectorReport [] | Some r \<Rightarrow> r)"
  by (simp add: prepared_def Let_def logger_error_def split: option.splits)

lemma prepared_trace:
  "trace (prepared env self exc) = trace self @
     (if exc \<noteq> None then [LoggerError ''An error got handled by the ConnectorContext''] else []) @
     (if report self = None
      then [LoggerError ''No test report was provided. This is probably due to an upstream error'']
      else [])"
  by (simp add: prepared_def Let_def logger_error_def)

lemma step_events_not_logged:
  "list_all (step_event R) evs \<Longrightarrow> filter (\<lambda>ev. \<not> is_logger_error ev) evs = evs"
proof (induction evs)
  case Nil
  show ?case by simp
next
  case (Cons ev evs)
  then show ?case by (cases ev) simp_all
qed

lemma aexit_shape:
  obtains evs where
    "report (final_context (aexit env sm self exc))
        = Some (case report self of None \<Rightarrow> ConnectorReport [] | Some r \<Rightarrow> r)"
    and "trace (final_context (aexit env sm self exc)) = trace (prepared env self exc) @ evs"
    and "list_all (step_event (case report self of None \<Rightarrow> ConnectorReport [] | Some r \<Rightarrow> r)) evs"
proof -
  let ?R = "case report self of None \<Rightarrow> ConnectorReport [] | Some r \<Rightarrow> r"
  have "teardown_inv ?R (trace (prepared env self exc)) (prepared env self exc)"
    by (simp add: teardown_inv_def prepared_report)
  then have "teardown_inv ?R (trace (prepared env self exc)) (final_context (aexit env sm self exc))"
    by (rule aexit_inv)
  then show thesis
    unfolding teardown_inv_def by (elim exE conjE) (rule that)
qed

lemma collaborator_calls_aexit:
  assumes "trace (final_context (aexit env sm self exc)) = trace (prepared env self exc) @ evs"
    and "list_all (step_event R) evs"
  shows "collaborator_calls self (aexit env sm self exc) = evs"
  using step_events_not_logged [OF assms(2)]
  by (simp add: collaborator_calls_def assms(1) prepared_trace)


text \<open>
  Claim C4: after teardown the context holds a report, whether teardown returned or raised
  and whatever the enclosed scope did. A report that was attached is kept; when none was
  attached, teardown logs the error and substitutes the empty default report with zero
  executed steps, and every call of the report's \<^verbatim>\<open>print\<close> and \<^verbatim>\<open>save\<close> that teardown makes is
  on the report the context holds in the end.
\<close>

theorem aexit_report_present:
  "report (final_context (aexit env slack_message self exc)) \<noteq> None
   \<and> (\<forall>r. report self = Some r
        \<longrightarrow> report (final_context (aexit env slack_message self exc)) = Some r)
   \<and> (report self = None
        \<longrightarrow> report (final_context (aexit env slack_message self exc)) = Some (ConnectorReport [])
          \<and> LoggerError ''No test report was provided. This is probably due to an upstream error''
              \<in> set (trace (final_context (aexit env slack_message self exc))))
   \<and> (\<forall>r. ReportPrint r \<in> set (collaborator_calls self (aexit env slack_message self exc))
           \<or> ReportSave r \<in> set (collaborator_calls self (aexit env slack_message self exc))
        \<longrightarrow> report (final_context (aexit env slack_message self exc)) = Some r)"
proof -
  let ?R = "case report self of None \<Rightarrow> ConnectorReport [] | Some r \<Rightarrow> r"
  let ?out = "aexit env slack_message self exc"
  obtain evs where s:
    "report (final_context ?out) = Some ?R"
    "trace (final_context ?out) = trace (prepared env self exc) @ evs"
    "list_all (step_event ?R) evs"
    by (rule aexit_shape)
  have c: "collaborator_calls self ?out = evs"
    by (rule collaborator_calls_aexit [OF s(2) s(3)])
  have u: "r = ?R" if "ReportPrint r \<in> set evs \<or> ReportSave r \<in> set evs" for r
    using that s(3) by (auto simp: list_all_iff)
  show ?thesis
  proof (intro conjI allI impI)
    show "report (final_context ?out) \<noteq> None"
      by (simp add: s(1))
    show "report (final_context ?out) = Some r" if "report self = Some r" for r
      using that by (simp add: s(1))
    show "report (final_context ?out) = Some (ConnectorReport [])" if "report self = None"
      using that by (simp add: s(1))
    show "LoggerError ''No test report was provided. This is probably due to an upstream error''
              \<in> set (trace (final_context ?out))" if "report self = None"
      using that by (simp add: s(2) prepared_trace)
    show "report (final_context ?out) = Some r"
      if "ReportPrint r \<in> set (collaborator_calls self ?out)
           \<or> ReportSave r \<in> set (collaborator_calls self ?out)" for r
      using that u [of r] by (simp add: c s(1))
  qed
qed

theorem aexit_report_present_witness:
  "report example_context = None
   \<and> report (final_context (aexit example_collaborators example_slack_message example_context
               (Some (RuntimeError ''boom'')))) = Some (ConnectorReport [])
   \<and> LoggerError ''No test report was provided. This is probably due to an upstream error''
       \<in> set (trace (final_context (aexit example_collaborators example_slack_message
                 example_context (Some (RuntimeError ''boom'')))))
   \<and> collaborator_calls example_context
        (aexit example_collaborators example_slack_message example_context
               (Some (RuntimeError ''boom'')))
      = [ReportPrint (ConnectorReport []), ReportSave (ConnectorReport []),
         CommitStatusCheckUpdate (Some ERROR)]"
proof -
  have n: "report example_context = None"
    by (simp add: example_context_def)
  note t = aexit_report_present
    [where env = example_collaborators and slack_message = example_slack_message
       and self = example_context and exc = "Some (RuntimeError ''boom'')"]
  have "report (final_context (aexit example_collaborators example_slack_message example_context
               (Some (RuntimeError ''boom'')))) = Some (ConnectorReport [])
   \<and> LoggerError ''No test report was provided. This is probably due to an upstream error''
       \<in> set (trace (final_context (aexit example_collaborators example_slack_message
                 example_context (Some (RuntimeError ''boom'')))))"
    by (rule t [THEN conjunct2, THEN conjunct2, THEN conjunct1, THEN mp, OF n])
  moreover have "collaborator_calls example_context
        (aexit example_collaborators example_slack_message example_context
               (Some (RuntimeError ''boom'')))
      = [ReportPrint (ConnectorReport []), ReportSave (ConnectorReport []),
         CommitStatusCheckUpdate (Some ERROR)]"
    by (simp add: aexit_def Let_def call_def report_print_step_def report_save_step_def
      slack_step_def logger_error_def should_save_updated_secrets_def
      should_send_slack_message_def example_collaborators_def example_context_def
      collaborator_calls_def)
  ultimately show ?thesis
    using n by blast
qed

lemma prepared_fields:
  "slack_webhook (prepared env self exc) = slack_webhook self"
  "reporting_slack_channel (prepared env self exc) = reporting_slack_channel self"
  "should_save_report (prepared env self exc) = should_save_report self"
  "use_remote_secrets (prepared env self exc) = use_remote_secrets self"
  "updated_secrets_dir (prepared env self exc) = updated_secrets_dir self"
  "state (prepared env self exc) = Some (determine_final_state env (report self) exc)"
  by (simp_all add: prepared_def Let_def logger_error_def)

lemma prepared_flags:
  "should_save_updated_secrets (prepared env self exc) = should_save_updated_secrets self"
  "should_send_slack_message (prepared env self exc) = should_send_slack_message self"
  by (simp_all add: should_save_updated_secrets_def should_send_slack_message_def prepared_fields)

lemma trace_update_flags:
  "should_save_updated_secrets (c\<lparr>trace := t\<rparr>) = should_save_updated_secrets c"
  "should_send_slack_message (c\<lparr>trace := t\<rparr>) = should_send_slack_message c"
  by (simp_all add: should_save_updated_secrets_def should_send_slack_message_def)

lemmas step_defs =
  call_def report_print_step_def report_save_step_def slack_step_def collaborator_calls_def
  prepared_fields prepared_flags trace_update_flags prepared_report prepared_trace Let_def

lemmas after_defs =
  after_upload_def after_print_def after_save_def after_status_check_def after_notification_def
  teardown_report_def

lemma then_do_call:
  "then_do (call ev res c) f =
     (case res of
        Some e \<Rightarrow> Raises e (c\<lparr>trace := trace c @ [ev]\<rparr>)
      | None \<Rightarrow> f () (c\<lparr>trace := trace c @ [ev]\<rparr>))"
  by (simp add: call_def Let_def split: option.split)

lemma then_do_if:
  "then_do (if b then call ev res c else Returns () c) f =
     (case (if b then res else None) of
        Some e \<Rightarrow> Raises e (c\<lparr>trace := trace c @ [ev]\<rparr>)
      | None \<Rightarrow> f () (if b then c\<lparr>trace := trace c @ [ev]\<rparr> else c))"
  by (simp add: then_do_call split: option.split)

lemma then_do_print:
  "report c = Some R \<Longrightarrow>
   then_do (report_print_step env c) f =
     (case report_print env R of
        Some e \<Rightarrow> Raises e (c\<lparr>trace := trace c @ [ReportPrint R]\<rparr>)
      | None \<Rightarrow> f () (c\<lparr>trace := trace c @ [ReportPrint R]\<rparr>))"
  by (simp add: report_print_step_def then_do_call)

lemma then_do_save:
  "report c = Some R \<Longrightarrow>
   then_do (if should_save_report c then report_save_step env c else Returns () c) f =
     (case (if should_save_report c then report_save env R else None) of
        Some e \<Rightarrow> Raises e (c\<lparr>trace := trace c @ [ReportSave R]\<rparr>)
      | None \<Rightarrow> f () (if should_save_report c then c\<lparr>trace := trace c @ [ReportSave R]\<rparr> else c))"
  by (simp add: report_save_step_def then_do_call split: option.split)

lemma then_do_slack:
  "then_do (if should_send_slack_message c then slack_step env sm c else Returns () c)
           (\<lambda>_ self9. Returns True self9) =
     (if should_send_slack_message c
      then (case sm c of
              Inl e \<Rightarrow> Raises e c
            | Inr msg \<Rightarrow>
                (case send_message_to_webhook env msg (reporting_slack_channel c) (slack_webhook c) of
                   Some e \<Rightarrow>
                     Raises e (c\<lparr>trace := trace c @
                        [SlackMessage msg (reporting_slack_channel c) (slack_webhook c)]\<rparr>)
                 | None \<Rightarrow>
                     Returns True (c\<lparr>trace := trace c @
                        [SlackMessage msg (reporting_slack_channel c) (slack_webhook c)]\<rparr>)))
      else Returns True c)"
  by (simp add: slack_step_def call_def Let_def split: option.split sum.split)

lemma after_fields:
  "report (after_upload env self exc) = Some (teardown_report self)"
  "report (after_print env self exc) = Some (teardown_report self)"
  "should_save_report (after_print env self exc) = should_save_report self"
  "should_send_slack_message (after_status_check env self exc) = should_send_slack_message self"
  "reporting_slack_channel (after_status_check env self exc) = reporting_slack_channel self"
  "slack_webhook (after_status_check env self exc) = slack_webhook self"
  by (simp_all add: after_defs Let_def prepared_report prepared_fields prepared_flags
      trace_update_flags should_send_slack_message_def)

lemma aexit_outcome:
  "aexit env sm self exc =
     (case (if should_save_updated_secrets self
            then secrets_upload env (prepared env self exc) else None) of
        Some e \<Rightarrow> Raises e (after_upload env self exc)
      | None \<Rightarrow>
     (case report_print env (teardown_report self) of
        Some e \<Rightarrow> Raises e (after_print env self exc)
      | None \<Rightarrow>
     (case (if should_save_report self
            then report_save env (teardown_report self) else None) of
        Some e \<Rightarrow> Raises e (after_save env self exc)
      | None \<Rightarrow>
     (case update_commit_status_check env (after_save env self exc) of
        Some e \<Rightarrow> Raises e (after_status_check env self exc)
      | None \<Rightarrow>
     (if should_send_slack_message self
      then (case sm (after_status_check env self exc) of
              Inl e \<Rightarrow> Raises e (after_status_check env self exc)
            | Inr msg \<Rightarrow>
                (case send_message_to_webhook env msg (reporting_slack_channel self)
                        (slack_webhook self) of
                   Some e \<Rightarrow> Raises e (after_notification env self exc msg)
                 | None \<Rightarrow> Returns True (after_notification env self exc msg)))
      else Returns True (after_status_check env self exc))))))"
proof -
  have 1: "aexit env sm self exc =
     (case (if should_save_updated_secrets self
            then secrets_upload env (prepared env self exc) else None) of
        Some e \<Rightarrow> Raises e (after_upload env self exc)
      | None \<Rightarrow>
          then_do (report_print_step env (after_upload env self exc))
        (\<lambda>_ self6. then_do (if should_save_report self6
                             then report_save_step env self6
                             else Returns () self6)
        (\<lambda>_ self7. then_do (call (CommitStatusCheckUpdate (state self7))
                                (update_commit_status_check env self7) self7)
        (\<lambda>_ self8. then_do (if should_send_slack_message self8
                             then slack_step env sm self8
                             else Returns () self8)
        (\<lambda>_ self9. Returns True self9)))))"
    unfolding aexit_prepared then_do_if
    by (simp add: after_upload_def Let_def prepared_flags split: option.split)
  have 2: "then_do (report_print_step env (after_upload env self exc)) f =
     (case report_print env (teardown_report self) of
        Some e \<Rightarrow> Raises e (after_print env self exc)
      | None \<Rightarrow> f () (after_print env self exc))" for f :: "unit \<Rightarrow> connector_context \<Rightarrow> bool outcome"
    by (simp add: then_do_print [OF after_fields(1)] after_print_def Let_def split: option.split)
  have 3: "then_do (if should_save_report (after_print env self exc)
                    then report_save_step env (after_print env self exc)
                    else Returns () (after_print env self exc)) f =
     (case (if should_save_report self
            then report_save env (teardown_report self) else None) of
        Some e \<Rightarrow> Raises e (after_save env self exc)
      | None \<Rightarrow> f () (after_save env self exc))" for f :: "unit \<Rightarrow> connector_context \<Rightarrow> bool outcome"
    unfolding then_do_save [OF after_fields(2)]
    by (simp add: after_save_def Let_def after_fields(3) split: option.split)
  have 4: "then_do (call (CommitStatusCheckUpdate (state (after_save env self exc)))
                      (update_commit_status_check env (after_save env self exc))
                      (after_save env self exc)) f =
     (case update_commit_status_check env (after_save env self exc) of
        Some e \<Rightarrow> Raises e (after_status_check env self exc)
      | None \<Rightarrow> f () (after_status_check env self exc))" for f :: "unit \<Rightarrow> connector_context \<Rightarrow> bool outcome"
    by (simp add: then_do_call after_status_check_def Let_def split: option.split)
  have 5: "then_do (if should_send_slack_message (after_status_check env self exc)
                    then slack_step env sm (after_status_check env self exc)
                    else Returns () (after_status_check env self exc))
                   (\<lambda>_ self9. Returns True self9) =
     (if should_send_slack_message self
      then (case sm (after_status_check env self exc) of
              Inl e \<Rightarrow> Raises e (after_status_check env self exc)
            | Inr msg \<Rightarrow>
                (case send_message_to_webhook env msg (reporting_slack_channel self)
                        (slack_webhook self) of
                   Some e \<Rightarrow> Raises e (after_notification env self exc msg)
                 | None \<Rightarrow> Returns True (after_notification env self exc msg)))
      else Returns True (after_status_check env self exc))"
    unfolding then_do_slack
    by (simp add: after_fields(4-6) after_notification_def Let_def split: option.split sum.split)
  show ?thesis
    unfolding 1 2 3 4 5 ..
qed


lemmas returns_defs =
  upload_returns_def print_returns_def save_returns_def status_check_returns_def
  notification_returns_def

lemma calls_after:
  "filter (\<lambda>ev. \<not> is_logger_error ev) (drop (length (trace self)) (trace (after_upload env self exc)))
     = (if should_save_updated_secrets self then [SecretsUpload] else [])"
  "filter (\<lambda>ev. \<not> is_logger_error ev) (drop (length (trace self)) (trace (after_print env self exc)))
     = (if should_save_updated_secrets self then [SecretsUpload] else [])
       @ [ReportPrint (teardown_report self)]"
  "filter (\<lambda>ev. \<not> is_logger_error ev) (drop (length (trace self)) (trace (after_save env self exc)))
     = (if should_save_updated_secrets self then [SecretsUpload] else [])
       @ [ReportPrint (teardown_report self)]
       @ (if should_save_report self then [ReportSave (teardown_report self)] else [])"
  "filter (\<lambda>ev. \<not> is_logger_error ev)
      (drop (length (trace self)) (trace (after_status_check env self exc)))
     = (if should_save_updated_secrets self then [SecretsUpload] else [])
       @ [ReportPrint (teardown_report self)]
       @ (if should_save_report self then [ReportSave (teardown_report self)] else [])
       @ [CommitStatusCheckUpdate (Some (determine_final_state env (report self) exc))]"
  "filter (\<lambda>ev. \<not> is_logger_error ev)
      (drop (length (trace self)) (trace (after_notification env self exc msg)))
     = (if should_save_updated_secrets self then [SecretsUpload] else [])
       @ [ReportPrint (teardown_report self)]
       @ (if should_save_report self then [ReportSave (teardown_report self)] else [])
       @ [CommitStatusCheckUpdate (Some (determine_final_state env (report self) exc)),
          SlackMessage msg (reporting_slack_channel self) (slack_webhook self)]"
  by (simp_all add: after_upload_def after_print_def after_save_def after_status_check_def
      after_notification_def Let_def prepared_trace prepared_flags prepared_fields)

lemma collaborator_calls_simps:
  "collaborator_calls self (Raises e c :: bool outcome)
     = filter (\<lambda>ev. \<not> is_logger_error ev) (drop (length (trace self)) (trace c))"
  "collaborator_calls self (Returns b c :: bool outcome)
     = filter (\<lambda>ev. \<not> is_logger_error ev) (drop (length (trace self)) (trace c))"
  by (simp_all add: collaborator_calls_def)

lemma aexit_upload_raises:
  assumes "should_save_updated_secrets self" and "secrets_upload env (prepared env self exc) = Some e"
  shows "aexit env sm self exc = Raises e (after_upload env self exc)"
  using assms by (simp add: aexit_outcome)

lemma aexit_print_raises:
  assumes "upload_returns env self exc" and "report_print env (teardown_report self) = Some e"
  shows "aexit env sm self exc = Raises e (after_print env self exc)"
  using assms by (simp add: aexit_outcome returns_defs)

lemma aexit_save_raises:
  assumes "upload_returns env self exc" and "print_returns env self"
    and "should_save_report self" and "report_save env (teardown_report self) = Some e"
  shows "aexit env sm self exc = Raises e (after_save env self exc)"
  using assms by (simp add: aexit_outcome returns_defs)

lemma aexit_status_check_raises:
  assumes "upload_returns env self exc" and "print_returns env self" and "save_returns env self"
    and "update_commit_status_check env (after_save env self exc) = Some e"
  shows "aexit env sm self exc = Raises e (after_status_check env self exc)"
  using assms by (simp add: aexit_outcome returns_defs)

lemma aexit_message_raises:
  assumes "upload_returns env self exc" and "print_returns env self" and "save_returns env self"
    and "status_check_returns env self exc" and "should_send_slack_message self"
    and "sm (after_status_check env self exc) = Inl e"
  shows "aexit env sm self exc = Raises e (after_status_check env self exc)"
  using assms by (simp add: aexit_outcome returns_defs)

lemma aexit_send_raises:
  assumes "upload_returns env self exc" and "print_returns env self" and "save_returns env self"
    and "status_check_returns env self exc" and "should_send_slack_message self"
    and "sm (after_status_check env self exc) = Inr msg"
    and "send_message_to_webhook env msg (reporting_slack_channel self) (slack_webhook self) = Some e"
  shows "aexit env sm self exc = Raises e (after_notification env self exc msg)"
  using assms by (simp add: aexit_outcome returns_defs)

lemma aexit_returns_iff:
  "returned (aexit env sm self exc) = Some True \<longleftrightarrow>
     upload_returns env self exc \<and> print_returns env self \<and> save_returns env self
     \<and> status_check_returns env self exc \<and> notification_returns env sm self exc"
  by (auto simp: aexit_outcome returns_defs split: option.splits sum.splits)

lemma raised_iff_returned:
  "raised (aexit env sm self exc) = None \<longleftrightarrow> returned (aexit env sm self exc) = Some True"
  by (auto simp: aexit_outcome split: option.splits sum.splits)


lemma notified_facts:
  "\<not> should_save_updated_secrets notified_context"
  "should_save_report notified_context"
  "should_send_slack_message notified_context"
  "teardown_report notified_context = ConnectorReport []"
  "reporting_slack_channel notified_context = Some ''#connector-ci''"
  "slack_webhook notified_context = Some ''https://hooks.slack.example/T000''"
  by (simp_all add: should_save_updated_secrets_def should_send_slack_message_def
      teardown_report_def notified_context_def example_context_def)

text \<open>
  Counterexample to claim C2 as stated: the enclosed scope raised \<^verbatim>\<open>RuntimeError("boom")\<close>
  and the report's \<^verbatim>\<open>save\<close> raises; \<^verbatim>\<open>__aexit__\<close> does not return \<^verbatim>\<open>True\<close>, it raises the
  exception of \<^verbatim>\<open>save\<close>.
\<close>

theorem aexit_raises_counterexample:
  "raised (aexit failing_save example_slack_message example_context
             (Some (RuntimeError ''boom'')))
     = Some (RuntimeError ''bucket unreachable'')
   \<and> returned (aexit failing_save example_slack_message example_context
             (Some (RuntimeError ''boom'')))
     = None"
  by (simp add: aexit_def Let_def call_def report_print_step_def report_save_step_def
      slack_step_def logger_error_def should_save_updated_secrets_def
      should_send_slack_message_def failing_save_def example_collaborators_def
      example_context_def)

text \<open>
  Claim C2, amended: for every exception raised inside the guarded scope (and when there
  is none), \<^verbatim>\<open>__aexit__\<close> returns \<^verbatim>\<open>True\<close>, raising nothing, exactly when every collaborator
  step of teardown returns: the steps that run (secret upload, report print, report save,
  status-check update, notification) return on the arguments teardown gives them and, when
  a notification target is configured, the class's \<^verbatim>\<open>create_slack_message\<close> returns a
  message. Otherwise \<^verbatim>\<open>__aexit__\<close> raises: the exception of the first step that raises
  propagates out of it.
\<close>

theorem aexit_returns_iff_steps_return:
  "(returned (aexit env slack_message self exc) = Some True \<longleftrightarrow>
      upload_returns env self exc \<and> print_returns env self \<and> save_returns env self
      \<and> status_check_returns env self exc \<and> notification_returns env slack_message self exc)
   \<and> (raised (aexit env slack_message self exc) = None \<longleftrightarrow>
      returned (aexit env slack_message self exc) = Some True)
   \<and> (\<forall>e. should_save_updated_secrets self \<and> secrets_upload env (prepared env self exc) = Some e
        \<longrightarrow> raised (aexit env slack_message self exc) = Some e)
   \<and> (\<forall>e. upload_returns env self exc \<and> report_print env (teardown_report self) = Some e
        \<longrightarrow> raised (aexit env slack_message self exc) = Some e)
   \<and> (\<forall>e. upload_returns env self exc \<and> print_returns env self
          \<and> should_save_report self \<and> report_save env (teardown_report self) = Some e
        \<longrightarrow> raised (aexit env slack_message self exc) = Some e)
   \<and> (\<forall>e. upload_returns env self exc \<and> print_returns env self \<and> save_returns env self
          \<and> update_commit_status_check env (after_save env self exc) = Some e
        \<longrightarrow> raised (aexit env slack_message self exc) = Some e)
   \<and> (\<forall>e. upload_returns env self exc \<and> print_returns env self \<and> save_returns env self
          \<and> status_check_returns env self exc \<and> should_send_slack_message self
          \<and> slack_message (after_status_check env self exc) = Inl e
        \<longrightarrow> raised (aexit env slack_message self exc) = Some e)
   \<and> (\<forall>e msg. upload_returns env self exc \<and> print_returns env self \<and> save_returns env self
          \<and> status_check_returns env self exc \<and> should_send_slack_message self
          \<and> slack_message (after_status_check env self exc) = Inr msg
          \<and> send_message_to_webhook env msg (reporting_slack_channel self) (slack_webhook self)
              = Some e
        \<longrightarrow> raised (aexit env slack_message self exc) = Some e)"
proof (intro conjI allI impI)
  show "returned (aexit env slack_message self exc) = Some True \<longleftrightarrow>
      upload_returns env self exc \<and> print_returns env self \<and> save_returns env self
      \<and> status_check_returns env self exc \<and> notification_returns env slack_message self exc"
    by (rule aexit_returns_iff)
  show "raised (aexit env slack_message self exc) = None \<longleftrightarrow>
      returned (aexit env slack_message self exc) = Some True"
    by (rule raised_iff_returned)
  show "raised (aexit env slack_message self exc) = Some e"
    if "should_save_updated_secrets self \<and> secrets_upload env (prepared env self exc) = Some e"
    for e
    using that by (simp add: aexit_upload_raises)
  show "raised (aexit env slack_message self exc) = Some e"
    if "upload_returns env self exc \<and> report_print env (teardown_report self) = Some e" for e
    using that by (simp add: aexit_print_raises)
  show "raised (aexit env slack_message self exc) = Some e"
    if "upload_returns env self exc \<and> print_returns env self
          \<and> should_save_report self \<and> report_save env (teardown_report self) = Some e" for e
    using that by (simp add: aexit_save_raises)
  show "raised (aexit env slack_message self exc) = Some e"
    if "upload_returns env self exc \<and> print_returns env self \<and> save_returns env self
          \<and> update_commit_status_check env (after_save env self exc) = Some e" for e
    using that by (simp add: aexit_status_check_raises)
  show "raised (aexit env slack_message self exc) = Some e"
    if "upload_returns env self exc \<and> print_returns env self \<and> save_returns env self
          \<and> status_check_returns env self exc \<and> should_send_slack_message self
          \<and> slack_message (after_status_check env self exc) = Inl e" for e
    using that by (simp add: aexit_message_raises)
  show "raised (aexit env slack_message self exc) = Some e"
    if "upload_returns env self exc \<and> print_returns env self \<and> save_returns env self
          \<and> status_check_returns env self exc \<and> should_send_slack_message self
          \<and> slack_message (after_status_check env self exc) = Inr msg
          \<and> send_message_to_webhook env msg (reporting_slack_channel self) (slack_webhook self)
              = Some e" for e msg
    using that by (simp add: aexit_send_raises [where msg = msg])
qed

theorem aexit_returns_iff_steps_return_witness:
  "returned (aexit example_collaborators example_slack_message notified_context
               (Some (RuntimeError ''boom''))) = Some True
   \<and> raised (aexit example_collaborators example_slack_message notified_context
               (Some (RuntimeError ''boom''))) = None
   \<and> raised (aexit failing_print example_slack_message notified_context
               (Some (RuntimeError ''boom''))) = Some (RuntimeError ''sink closed'')
   \<and> raised (aexit failing_send example_slack_message notified_context
               (Some (RuntimeError ''boom''))) = Some (RuntimeError ''slack down'')"
proof -
  let ?exc = "Some (RuntimeError ''boom'')"
  note ok = aexit_returns_iff_steps_return
    [where env = example_collaborators and slack_message = example_slack_message
       and self = notified_context and exc = ?exc]
  have "upload_returns example_collaborators notified_context ?exc
      \<and> print_returns example_collaborators notified_context
      \<and> save_returns example_collaborators notified_context
      \<and> status_check_returns example_collaborators notified_context ?exc
      \<and> notification_returns example_collaborators example_slack_message notified_context ?exc"
    by (simp add: returns_defs notified_facts example_collaborators_def example_slack_message_def)
  then have 1: "returned (aexit example_collaborators example_slack_message notified_context ?exc)
                  = Some True"
    using ok [THEN conjunct1] by blast
  then have 2: "raised (aexit example_collaborators example_slack_message notified_context ?exc)
                  = None"
    using ok [THEN conjunct2, THEN conjunct1] by blast
  note p = aexit_returns_iff_steps_return
    [where env = failing_print and slack_message = example_slack_message
       and self = notified_context and exc = ?exc]
  have "upload_returns failing_print notified_context ?exc
      \<and> report_print failing_print (teardown_report notified_context)
          = Some (RuntimeError ''sink closed'')"
    by (simp add: returns_defs notified_facts failing_print_def)
  then have 3: "raised (aexit failing_print example_slack_message notified_context ?exc)
                  = Some (RuntimeError ''sink closed'')"
    by (rule p [THEN conjunct2, THEN conjunct2, THEN conjunct2, THEN conjunct1, rule_format])
  note s = aexit_returns_iff_steps_return
    [where env = failing_send and slack_message = example_slack_message
       and self = notified_context and exc = ?exc]
  have "upload_returns failing_send notified_context ?exc
      \<and> print_returns failing_send notified_context
      \<and> save_returns failing_send notified_context
      \<and> status_check_returns failing_send notified_context ?exc
      \<and> should_send_slack_message notified_context
      \<and> example_slack_message (after_status_check failing_send notified_context ?exc)
          = Inr ''source-foo: done''
      \<and> send_message_to_webhook failing_send ''source-foo: done''
            (reporting_slack_channel notified_context) (slack_webhook notified_context)
          = Some (RuntimeError ''slack down'')"
    by (simp add: returns_defs notified_facts failing_send_def example_collaborators_def
        example_slack_message_def)
  then have 4: "raised (aexit failing_send example_slack_message notified_context ?exc)
                  = Some (RuntimeError ''slack down'')"
    by (rule s [THEN conjunct2, THEN conjunct2, THEN conjunct2, THEN conjunct2, THEN conjunct2,
                THEN conjunct2, THEN conjunct2, rule_format])
  from 1 2 3 4 show ?thesis by blast
qed


text \<open>
  Counterexample to claim C3 as stated: a notification target is configured and the
  status-check update raises; \<^verbatim>\<open>__aexit__\<close> raises that exception, and the calls it has made
  end with the status-check update: the notification collaborator is not invoked.
\<close>

theorem aexit_no_isolation_counterexample:
  "should_send_slack_message notified_context
   \<and> raised (aexit failing_status_check example_slack_message notified_context None)
       = Some (RuntimeError ''github unavailable'')
   \<and> collaborator_calls notified_context
         (aexit failing_status_check example_slack_message notified_context None)
       = [ReportPrint (ConnectorReport []), ReportSave (ConnectorReport []),
          CommitStatusCheckUpdate (Some ERROR)]"
  by (simp add: aexit_def Let_def call_def report_print_step_def report_save_step_def
      slack_step_def logger_error_def should_save_updated_secrets_def
      should_send_slack_message_def failing_status_check_def example_collaborators_def
      example_context_def notified_context_def collaborator_calls_def example_slack_message_def)

text \<open>
  Claim C3, amended: teardown runs its collaborator steps (secret upload, report print,
  report save, status-check update, notification) in order and catches none of their
  errors. When a step raises, \<^verbatim>\<open>__aexit__\<close> raises that exception and the calls it has made
  end with the call that raised: the later steps are not run. In particular, when the
  status-check update raises, the notification collaborator is not invoked, also when a
  webhook and a channel are configured; and when \<^verbatim>\<open>create_slack_message\<close> raises, no message
  is sent.
\<close>

theorem aexit_failure_ends_teardown:
  "(\<forall>e. should_save_updated_secrets self \<and> secrets_upload env (prepared env self exc) = Some e
        \<longrightarrow> raised (aexit env slack_message self exc) = Some e
          \<and> collaborator_calls self (aexit env slack_message self exc) = [SecretsUpload])
   \<and> (\<forall>e. upload_returns env self exc \<and> report_print env (teardown_report self) = Some e
        \<longrightarrow> raised (aexit env slack_message self exc) = Some e
          \<and> collaborator_calls self (aexit env slack_message self exc)
              = (if should_save_updated_secrets self then [SecretsUpload] else [])
                @ [ReportPrint (teardown_report self)])
   \<and> (\<forall>e. upload_returns env self exc \<and> print_returns env self
          \<and> should_save_report self \<and> report_save env (teardown_report self) = Some e
        \<longrightarrow> raised (aexit env slack_message self exc) = Some e
          \<and> collaborator_calls self (aexit env slack_message self exc)
              = (if should_save_updated_secrets self then [SecretsUpload] else [])
                @ [ReportPrint (teardown_report self), ReportSave (teardown_report self)])
   \<and> (\<forall>e. upload_returns env self exc \<and> print_returns env self \<and> save_returns env self
          \<and> update_commit_status_check env (after_save env self exc) = Some e
        \<longrightarrow> raised (aexit env slack_message self exc) = Some e
          \<and> collaborator_calls self (aexit env slack_message self exc)
              = (if should_save_updated_secrets self then [SecretsUpload] else [])
                @ [ReportPrint (teardown_report self)]
                @ (if should_save_report self then [ReportSave (teardown_report self)] else [])
                @ [CommitStatusCheckUpdate (Some (determine_final_state env (report self) exc))]
          \<and> filter is_slack_message
               (collaborator_calls self (aexit env slack_message self exc)) = [])
   \<and> (\<forall>e. upload_returns env self exc \<and> print_returns env self \<and> save_returns env self
          \<and> status_check_returns env self exc \<and> should_send_slack_message self
          \<and> slack_message (after_status_check env self exc) = Inl e
        \<longrightarrow> raised (aexit env slack_message self exc) = Some e
          \<and> collaborator_calls self (aexit env slack_message self exc)
              = (if should_save_updated_secrets self then [SecretsUpload] else [])
                @ [ReportPrint (teardown_report self)]
                @ (if should_save_report self then [ReportSave (teardown_report self)] else [])
                @ [CommitStatusCheckUpdate (Some (determine_final_state env (report self) exc))])
   \<and> (\<forall>e msg. upload_returns env self exc \<and> print_returns env self \<and> save_returns env self
          \<and> status_check_returns env self exc \<and> should_send_slack_message self
          \<and> slack_message (after_status_check env self exc) = Inr msg
          \<and> send_message_to_webhook env msg (reporting_slack_channel self) (slack_webhook self)
              = Some e
        \<longrightarrow> raised (aexit env slack_message self exc) = Some e
          \<and> collaborator_calls self (aexit env slack_message self exc)
              = (if should_save_updated_secrets self then [SecretsUpload] else [])
                @ [ReportPrint (teardown_report self)]
                @ (if should_save_report self then [ReportSave (teardown_report self)] else [])
                @ [CommitStatusCheckUpdate (Some (determine_final_state env (report self) exc)),
                   SlackMessage msg (reporting_slack_channel self) (slack_webhook self)])"
proof (intro conjI allI impI)
  fix e
  assume "should_save_updated_secrets self \<and> secrets_upload env (prepared env self exc) = Some e"
  then have a: "aexit env slack_message self exc = Raises e (after_upload env self exc)"
    and s: "should_save_updated_secrets self"
    by (simp_all add: aexit_upload_raises)
  show "raised (aexit env slack_message self exc) = Some e"
    by (simp add: a)
  show "collaborator_calls self (aexit env slack_message self exc) = [SecretsUpload]"
    by (simp add: a collaborator_calls_simps calls_after s)
next
  fix e
  assume "upload_returns env self exc \<and> report_print env (teardown_report self) = Some e"
  then have a: "aexit env slack_message self exc = Raises e (after_print env self exc)"
    by (simp add: aexit_print_raises)
  show "raised (aexit env slack_message self exc) = Some e"
    by (simp add: a)
  show "collaborator_calls self (aexit env slack_message self exc)
              = (if should_save_updated_secrets self then [SecretsUpload] else [])
                @ [ReportPrint (teardown_report self)]"
    by (simp only: a collaborator_calls_simps calls_after)
next
  fix e
  assume h: "upload_returns env self exc \<and> print_returns env self
          \<and> should_save_report self \<and> report_save env (teardown_report self) = Some e"
  then have a: "aexit env slack_message self exc = Raises e (after_save env self exc)"
    by (simp add: aexit_save_raises)
  show "raised (aexit env slack_message self exc) = Some e"
    by (simp add: a)
  show "collaborator_calls self (aexit env slack_message self exc)
              = (if should_save_updated_secrets self then [SecretsUpload] else [])
                @ [ReportPrint (teardown_report self), ReportSave (teardown_report self)]"
    using h by (simp add: a collaborator_calls_simps calls_after)
next
  fix e
  assume "upload_returns env self exc \<and> print_returns env self \<and> save_returns env self
          \<and> update_commit_status_check env (after_save env self exc) = Some e"
  then have a: "aexit env slack_message self exc = Raises e (after_status_check env self exc)"
    by (simp add: aexit_status_check_raises)
  show "raised (aexit env slack_message self exc) = Some e"
    by (simp add: a)
  show "collaborator_calls self (aexit env slack_message self exc)
              = (if should_save_updated_secrets self then [SecretsUpload] else [])
                @ [ReportPrint (teardown_report self)]
                @ (if should_save_report self then [ReportSave (teardown_report self)] else [])
                @ [CommitStatusCheckUpdate (Some (determine_final_state env (report self) exc))]"
    by (simp only: a collaborator_calls_simps calls_after)
  show "filter is_slack_message
               (collaborator_calls self (aexit env slack_message self exc)) = []"
    by (simp add: a collaborator_calls_simps calls_after)
next
  fix e
  assume "upload_returns env self exc \<and> print_returns env self \<and> save_returns env self
          \<and> status_check_returns env self exc \<and> should_send_slack_message self
          \<and> slack_message (after_status_check env self exc) = Inl e"
  then have a: "aexit env slack_message self exc = Raises e (after_status_check env self exc)"
    by (simp add: aexit_message_raises)
  show "raised (aexit env slack_message self exc) = Some e"
    by (simp add: a)
  show "collaborator_calls self (aexit env slack_message self exc)
              = (if should_save_updated_secrets self then [SecretsUpload] else [])
                @ [ReportPrint (teardown_report self)]
                @ (if should_save_report self then [ReportSave (teardown_report self)] else [])
                @ [CommitStatusCheckUpdate (Some (determine_final_state env (report self) exc))]"
    by (simp only: a collaborator_calls_simps calls_after)
next
  fix e msg
  assume "upload_returns env self exc \<and> print_returns env self \<and> save_returns env self
          \<and> status_check_returns env self exc \<and> should_send_slack_message self
          \<and> slack_message (after_status_check env self exc) = Inr msg
          \<and> send_message_to_webhook env msg (reporting_slack_channel self) (slack_webhook self)
              = Some e"
  then have a: "aexit env slack_message self exc = Raises e (after_notification env self exc msg)"
    by (simp add: aexit_send_raises [where msg = msg])
  show "raised (aexit env slack_message self exc) = Some e"
    by (simp add: a)
  show "collaborator_calls self (aexit env slack_message self exc)
              = (if should_save_updated_secrets self then [SecretsUpload] else [])
                @ [ReportPrint (teardown_report self)]
                @ (if should_save_report self then [ReportSave (teardown_report self)] else [])
                @ [CommitStatusCheckUpdate (Some (determine_final_state env (report self) exc)),
                   SlackMessage msg (reporting_slack_channel self) (slack_webhook self)]"
    by (simp only: a collaborator_calls_simps calls_after)
qed


theorem aexit_failure_ends_teardown_witness:
  "raised (aexit failing_upload example_slack_message
             (notified_context\<lparr>updated_secrets_dir := Some [''secrets'']\<rparr>) None)
     = Some (RuntimeError ''secret store unavailable'')
   \<and> collaborator_calls (notified_context\<lparr>updated_secrets_dir := Some [''secrets'']\<rparr>)
        (aexit failing_upload example_slack_message
             (notified_context\<lparr>updated_secrets_dir := Some [''secrets'']\<rparr>) None)
     = [SecretsUpload]
   \<and> raised (aexit failing_print example_slack_message notified_context None)
     = Some (RuntimeError ''sink closed'')
   \<and> collaborator_calls notified_context
        (aexit failing_print example_slack_message notified_context None)
     = [ReportPrint (ConnectorReport [])]
   \<and> raised (aexit failing_save example_slack_message notified_context None)
     = Some (RuntimeError ''bucket unreachable'')
   \<and> collaborator_calls notified_context
        (aexit failing_save example_slack_message notified_context None)
     = [ReportPrint (ConnectorReport []), ReportSave (ConnectorReport [])]
   \<and> raised (aexit failing_status_check example_slack_message notified_context None)
     = Some (RuntimeError ''github unavailable'')
   \<and> filter is_slack_message
        (collaborator_calls notified_context
           (aexit failing_status_check example_slack_message notified_context None)) = []
   \<and> raised (aexit example_collaborators create_slack_message notified_context None)
     = Some NotImplementedError
   \<and> raised (aexit failing_send example_slack_message notified_context None)
     = Some (RuntimeError ''slack down'')
   \<and> collaborator_calls notified_context
        (aexit failing_send example_slack_message notified_context None)
     = [ReportPrint (ConnectorReport []), ReportSave (ConnectorReport []),
        CommitStatusCheckUpdate (Some ERROR),
        SlackMessage ''source-foo: done'' (Some ''#connector-ci'')
          (Some ''https://hooks.slack.example/T000'')]"
proof -
  let ?c1 = "notified_context\<lparr>updated_secrets_dir := Some [''secrets'']\<rparr>"
  have h1: "should_save_updated_secrets ?c1
      \<and> secrets_upload failing_upload (prepared failing_upload ?c1 None)
          = Some (RuntimeError ''secret store unavailable'')"
    by (simp add: should_save_updated_secrets_def notified_context_def example_context_def
        failing_upload_def)
  have 1: "raised (aexit failing_upload example_slack_message ?c1 None)
             = Some (RuntimeError ''secret store unavailable'')
           \<and> collaborator_calls ?c1 (aexit failing_upload example_slack_message ?c1 None)
             = [SecretsUpload]"
    using h1
    by (rule aexit_failure_ends_teardown
          [where self = ?c1 and env = failing_upload and slack_message = example_slack_message
             and exc = None, THEN conjunct1, rule_format])
  have h2: "upload_returns failing_print notified_context None
      \<and> report_print failing_print (teardown_report notified_context)
          = Some (RuntimeError ''sink closed'')"
    by (simp add: returns_defs notified_facts failing_print_def)
  have "raised (aexit failing_print example_slack_message notified_context None)
             = Some (RuntimeError ''sink closed'')
        \<and> collaborator_calls notified_context
             (aexit failing_print example_slack_message notified_context None)
           = (if should_save_updated_secrets notified_context then [SecretsUpload] else [])
             @ [ReportPrint (teardown_report notified_context)]"
    using h2
    by (rule aexit_failure_ends_teardown
          [where self = notified_context and env = failing_print
             and slack_message = example_slack_message and exc = None,
           THEN conjunct2, THEN conjunct1, rule_format])
  then have 2: "raised (aexit failing_print example_slack_message notified_context None)
             = Some (RuntimeError ''sink closed'')
        \<and> collaborator_calls notified_context
             (aexit failing_print example_slack_message notified_context None)
           = [ReportPrint (ConnectorReport [])]"
    by (simp only: notified_facts if_False append_Nil)
  have h3: "upload_returns failing_save notified_context None
      \<and> print_returns failing_save notified_context
      \<and> should_save_report notified_context
      \<and> report_save failing_save (teardown_report notified_context)
          = Some (RuntimeError ''bucket unreachable'')"
    by (simp add: returns_defs notified_facts failing_save_def example_collaborators_def)
  have "raised (aexit failing_save example_slack_message notified_context None)
             = Some (RuntimeError ''bucket unreachable'')
        \<and> collaborator_calls notified_context
             (aexit failing_save example_slack_message notified_context None)
           = (if should_save_updated_secrets notified_context then [SecretsUpload] else [])
             @ [ReportPrint (teardown_report notified_context),
                ReportSave (teardown_report notified_context)]"
    using h3
    by (rule aexit_failure_ends_teardown
          [where self = notified_context and env = failing_save
             and slack_message = example_slack_message and exc = None,
           THEN conjunct2, THEN conjunct2, THEN conjunct1, rule_format])
  then have 3: "raised (aexit failing_save example_slack_message notified_context None)
             = Some (RuntimeError ''bucket unreachable'')
        \<and> collaborator_calls notified_context
             (aexit failing_save example_slack_message notified_context None)
           = [ReportPrint (ConnectorReport []), ReportSave (ConnectorReport [])]"
    by (simp only: notified_facts if_False append_Nil)
  have h4: "upload_returns failing_status_check notified_context None
      \<and> print_returns failing_status_check notified_context
      \<and> save_returns failing_status_check notified_context
      \<and> update_commit_status_check failing_status_check
            (after_save failing_status_check notified_context None)
          = Some (RuntimeError ''github unavailable'')"
    by (simp add: returns_defs notified_facts failing_status_check_def example_collaborators_def)
  have 4: "raised (aexit failing_status_check example_slack_message notified_context None)
             = Some (RuntimeError ''github unavailable'')
        \<and> filter is_slack_message
             (collaborator_calls notified_context
                (aexit failing_status_check example_slack_message notified_context None)) = []"
    using aexit_failure_ends_teardown
          [where self = notified_context and env = failing_status_check
             and slack_message = example_slack_message and exc = None,
           THEN conjunct2, THEN conjunct2, THEN conjunct2, THEN conjunct1, rule_format, OF h4]
    by blast
  have h5: "upload_returns example_collaborators notified_context None
      \<and> print_returns example_collaborators notified_context
      \<and> save_returns example_collaborators notified_context
      \<and> status_check_returns example_collaborators notified_context None
      \<and> should_send_slack_message notified_context
      \<and> create_slack_message (after_status_check example_collaborators notified_context None)
          = Inl NotImplementedError"
    by (simp add: returns_defs notified_facts example_collaborators_def create_slack_message_def)
  have 5: "raised (aexit example_collaborators create_slack_message notified_context None)
             = Some NotImplementedError"
    using aexit_failure_ends_teardown
          [where self = notified_context and env = example_collaborators
             and slack_message = create_slack_message and exc = None,
           THEN conjunct2, THEN conjunct2, THEN conjunct2, THEN conjunct2, THEN conjunct1,
           rule_format, OF h5]
    by blast
  have h6: "upload_returns failing_send notified_context None
      \<and> print_returns failing_send notified_context
      \<and> save_returns failing_send notified_context
      \<and> status_check_returns failing_send notified_context None
      \<and> should_send_slack_message notified_context
      \<and> example_slack_message (after_status_check failing_send notified_context None)
          = Inr ''source-foo: done''
      \<and> send_message_to_webhook failing_send ''source-foo: done''
            (reporting_slack_channel notified_context) (slack_webhook notified_context)
          = Some (RuntimeError ''slack down'')"
    by (simp add: returns_defs notified_facts failing_send_def example_collaborators_def
        example_slack_message_def)
  have d: "determine_final_state failing_send (report notified_context) None = ERROR"
    by (simp add: failing_send_def example_collaborators_def notified_context_def
        example_context_def)
  have "raised (aexit failing_send example_slack_message notified_context None)
             = Some (RuntimeError ''slack down'')
        \<and> collaborator_calls notified_context
             (aexit failing_send example_slack_message notified_context None)
           = (if should_save_updated_secrets notified_context then [SecretsUpload] else [])
             @ [ReportPrint (teardown_report notified_context)]
             @ (if should_save_report notified_context
                then [ReportSave (teardown_report notified_context)] else [])
             @ [CommitStatusCheckUpdate
                  (Some (determine_final_state failing_send (report notified_context) None)),
                SlackMessage ''source-foo: done'' (reporting_slack_channel notified_context)
                  (slack_webhook notified_context)]"
    using h6
    by (rule aexit_failure_ends_teardown
          [where self = notified_context and env = failing_send
             and slack_message = example_slack_message and exc = None,
           THEN conjunct2, THEN conjunct2, THEN conjunct2, THEN conjunct2, THEN conjunct2,
           rule_format])
  then have 6: "raised (aexit failing_send example_slack_message notified_context None)
             = Some (RuntimeError ''slack down'')
        \<and> collaborator_calls notified_context
             (aexit failing_send example_slack_message notified_context None)
           = [ReportPrint (ConnectorReport []), ReportSave (ConnectorReport []),
              CommitStatusCheckUpdate (Some ERROR),
              SlackMessage ''source-foo: done'' (Some ''#connector-ci'')
                (Some ''https://hooks.slack.example/T000'')]"
    by (simp only: notified_facts d if_False if_True append_Nil append_Cons)
  from 1 2 3 4 5 6 show ?thesis by blast
qed


lemma then_do_never:
  "J (final_context out) \<Longrightarrow> (\<And>x c. J c \<Longrightarrow> returned (f x c) = None)
   \<Longrightarrow> returned (then_do out f) = None"
  by (cases out) auto

lemma final_context_call:
  "final_context (call ev res c) = c\<lparr>trace := trace c @ [ev]\<rparr>"
  by (simp add: call_def Let_def split: option.split)

lemma target_kept:
  "should_send_slack_message c \<Longrightarrow> should_send_slack_message (final_context (call ev res c))"
  "should_send_slack_message c
   \<Longrightarrow> should_send_slack_message (final_context (report_print_step env c))"
  "should_send_slack_message c
   \<Longrightarrow> should_send_slack_message (final_context (report_save_step env c))"
  by (simp_all add: final_context_call trace_update_flags report_print_step_def
      report_save_step_def split: option.split)

lemma base_class_never_returns:
  assumes "should_send_slack_message self"
  shows "returned (aexit env create_slack_message self exc) = None"
proof -
  have l5: "returned (then_do (slack_step env create_slack_message c) f) = None" for c f
    by (simp add: slack_step_def create_slack_message_def)
  have l4: "returned (then_do (call ev res c)
        (\<lambda>_ self8. then_do (if should_send_slack_message self8
                             then slack_step env create_slack_message self8
                             else Returns () self8)
        (\<lambda>_ self9. Returns True self9))) = None"
    if "should_send_slack_message c" for c ev res
    by (rule then_do_never [where J = should_send_slack_message])
       (simp_all add: that target_kept l5)
  have l3: "returned (then_do (if should_save_report c
                             then report_save_step env c
                             else Returns () c)
        (\<lambda>_ self7. then_do (call (CommitStatusCheckUpdate (state self7))
                                (update_commit_status_check env self7) self7)
        (\<lambda>_ self8. then_do (if should_send_slack_message self8
                             then slack_step env create_slack_message self8
                             else Returns () self8)
        (\<lambda>_ self9. Returns True self9)))) = None"
    if "should_send_slack_message c" for c
    by (rule then_do_never [where J = should_send_slack_message])
       (simp_all add: that target_kept l4)
  have l2: "returned (then_do (report_print_step env c)
        (\<lambda>_ self6. then_do (if should_save_report self6
                             then report_save_step env self6
                             else Returns () self6)
        (\<lambda>_ self7. then_do (call (CommitStatusCheckUpdate (state self7))
                                (update_commit_status_check env self7) self7)
        (\<lambda>_ self8. then_do (if should_send_slack_message self8
                             then slack_step env create_slack_message self8
                             else Returns () self8)
        (\<lambda>_ self9. Returns True self9))))) = None"
    if "should_send_slack_message c" for c
    by (rule then_do_never [where J = should_send_slack_message])
       (simp_all add: that target_kept l3)
  from assms have "should_send_slack_message (prepared env self exc)"
    by (simp add: prepared_flags)
  then show ?thesis
    unfolding aexit_prepared
    by (intro then_do_never [where J = should_send_slack_message and f = "\<lambda>_ self5. then_do (report_print_step env self5) _"])
       (simp_all add: target_kept l2)
qed

text \<open>
  Claim C10: with a notification target configured and \<^verbatim>\<open>create_slack_message\<close> not
  overridden, \<^verbatim>\<open>__aexit__\<close> never returns; when the collaborator calls before the
  notification step return, the exception it raises is the \<^verbatim>\<open>NotImplementedError\<close> of the
  base method, raised before any message is sent.
\<close>

theorem aexit_base_slack_message_raises:
  assumes "should_send_slack_message self"
  shows "returned (aexit env create_slack_message self exc) = None
     \<and> ((\<forall>c. secrets_upload env c = None) \<and> (\<forall>r. report_print env r = None)
          \<and> (\<forall>r. report_save env r = None) \<and> (\<forall>c. update_commit_status_check env c = None)
        \<longrightarrow> raised (aexit env create_slack_message self exc) = Some NotImplementedError
          \<and> filter is_slack_message
               (collaborator_calls self (aexit env create_slack_message self exc)) = [])"
proof (intro conjI impI)
  show "returned (aexit env create_slack_message self exc) = None"
    using assms by (rule base_class_never_returns)
next
  assume "(\<forall>c. secrets_upload env c = None) \<and> (\<forall>r. report_print env r = None)
          \<and> (\<forall>r. report_save env r = None) \<and> (\<forall>c. update_commit_status_check env c = None)"
  with assms show "raised (aexit env create_slack_message self exc) = Some NotImplementedError"
    by (simp add: aexit_prepared step_defs create_slack_message_def)
next
  assume "(\<forall>c. secrets_upload env c = None) \<and> (\<forall>r. report_print env r = None)
          \<and> (\<forall>r. report_save env r = None) \<and> (\<forall>c. update_commit_status_check env c = None)"
  with assms show "filter is_slack_message
               (collaborator_calls self (aexit env create_slack_message self exc)) = []"
    by (simp add: aexit_prepared step_defs create_slack_message_def)
qed

theorem aexit_base_slack_message_raises_witness:
  "should_send_slack_message notified_context
   \<and> returned (aexit example_collaborators create_slack_message notified_context None) = None
   \<and> raised (aexit example_collaborators create_slack_message notified_context None)
       = Some NotImplementedError"
proof -
  have h: "should_send_slack_message notified_context"
    by (simp add: should_send_slack_message_def notified_context_def)
  have c: "(\<forall>c. secrets_upload example_collaborators c = None)
          \<and> (\<forall>r. report_print example_collaborators r = None)
          \<and> (\<forall>r. report_save example_collaborators r = None)
          \<and> (\<forall>c. update_commit_status_check example_collaborators c = None)"
    by (simp add: example_collaborators_def)
  note t = aexit_base_slack_message_raises
    [OF h, where env = example_collaborators and exc = None]
  have "returned (aexit example_collaborators create_slack_message notified_context None) = None"
    by (rule t [THEN conjunct1])
  moreover
  have "raised (aexit example_collaborators create_slack_message notified_context None)
       = Some NotImplementedError"
    using t [THEN conjunct2, THEN mp, OF c] by blast
  ultimately show ?thesis
    using h by blast
qed

end
